theory Spec2Isabelle
  imports Complex_Main "HOL-Library.Multiset"
begin

section \<open>Python values and failures\<close>

text \<open>
  The scripts are Python. An exception that leaves a function is a value \<open>Inl e\<close> of the
  result type \<open>py_error + 'a\<close>; a normal return is \<open>Inr v\<close>. A Python float is an
  IEEE double; it is modelled by the rational number it holds. Where the load generator
  computes on floats (the difference of two clock readings, its product with 1000, a sum
  of durations, \<open>round\<close>), each operation gives the double nearest to the exact
  result, as the machine does. The reporter's statistics and comparisons are taken on
  the rationals the samples hold.
\<close>

datatype py_error =
    IndexError
  | StatisticsError
  | ZeroDivisionError
  | ValueError string
  | AttributeError string
  | KeyError string

definition raise_bind :: "py_error + 'a \<Rightarrow> ('a \<Rightarrow> py_error + 'b) \<Rightarrow> py_error + 'b" where
  "raise_bind m k = (case m of Inl e \<Rightarrow> Inl e | Inr v \<Rightarrow> k v)"

text \<open>\<open>xs[i]\<close>: a negative index counts from the end, anything outside raises.\<close>

definition py_getitem :: "'a list \<Rightarrow> int \<Rightarrow> py_error + 'a" where
  "py_getitem xs i =
     (if 0 \<le> i \<and> i < int (length xs) then Inr (xs ! nat i)
      else if i < 0 \<and> - int (length xs) \<le> i then Inr (xs ! nat (int (length xs) + i))
      else Inl IndexError)"

text \<open>\<open>int(x / 100)\<close> for an integer \<open>x\<close>: true division, then truncation towards zero.\<close>

definition int_of_div_100 :: "int \<Rightarrow> int" where
  "int_of_div_100 x = (if 0 \<le> x then x div 100 else - ((- x) div 100))"

text \<open>\<open>a / b\<close> on numbers.\<close>

definition py_truediv :: "rat \<Rightarrow> rat \<Rightarrow> py_error + rat" where
  "py_truediv a b = (if b = 0 then Inl ZeroDivisionError else Inr (a / b))"

text \<open>
  The decimal step of \<open>round(x, 2)\<close>: the multiple of a hundredth nearest to the value
  \<open>x\<close> holds, a tie going to the even neighbour.
\<close>

definition py_round2 :: "rat \<Rightarrow> rat" where
  "py_round2 x =
     (let y = x * 100; f = \<lfloor>y\<rfloor>; r = y - of_int f
      in (if r < 1 / 2 then of_int f
          else if 1 / 2 < r then of_int (f + 1)
          else if even f then of_int f else of_int (f + 1)) / 100)"

text \<open>
  Doubles. \<open>fl x\<close> is the double nearest to the rational \<open>x\<close>, a tie going to the even
  significand: with \<open>2 ^ E \<le> |x| < 2 ^ (E + 1)\<close> the doubles around \<open>x\<close> are the
  multiples of \<open>2 ^ (E - 52)\<close>, and below \<open>2 ^ -1022\<close> they are the multiples of
  \<open>2 ^ -1074\<close>. \<open>halvings\<close> finds \<open>E\<close> for \<open>|x| \<ge> 1\<close> and \<open>doublings\<close> finds \<open>-E\<close>,
  stopping at 1022, for \<open>|x| < 1\<close>. Overflow to infinity is left out: it needs a
  magnitude of \<open>2 ^ 1024\<close>, which no clock reading or duration has.
\<close>

definition round_half_even :: "rat \<Rightarrow> int" where
  "round_half_even y =
     (let f = \<lfloor>y\<rfloor>; r = y - of_int f
      in if r < 1 / 2 then f
         else if 1 / 2 < r then f + 1
         else if even f then f else f + 1)"

fun halvings :: "nat \<Rightarrow> rat \<Rightarrow> nat" where
  "halvings n a = (if n = 0 \<or> a < 2 then 0 else Suc (halvings (n - 1) (a / 2)))"

fun doublings :: "nat \<Rightarrow> rat \<Rightarrow> nat" where
  "doublings n a = (if n = 0 \<or> 1 \<le> a then 0 else Suc (doublings (n - 1) (a * 2)))"

definition binary_exponent :: "rat \<Rightarrow> int" where
  "binary_exponent a =
     (if 1 \<le> a then int (halvings 1023 a) else - int (doublings 1022 a))"

definition pow2 :: "int \<Rightarrow> rat" where
  "pow2 e = (if 0 \<le> e then 2 ^ nat e else 1 / 2 ^ nat (- e))"

definition fl :: "rat \<Rightarrow> rat" where
  "fl x = (if x = 0 then 0
           else let e = binary_exponent \<bar>x\<bar> - 52
                in of_int (round_half_even (x / pow2 e)) * pow2 e)"

text \<open>
  Float arithmetic: \<open>a - b\<close>, \<open>a * b\<close> and \<open>a + b\<close> on doubles; \<open>sum(xs)\<close>, which adds
  the items from left to right starting from 0; and \<open>round(x, 2)\<close> on a double, which
  is the double nearest to the decimal that \<open>py_round2\<close> finds.
\<close>

definition float_sub :: "rat \<Rightarrow> rat \<Rightarrow> rat" where
  "float_sub a b = fl (a - b)"

definition float_mul :: "rat \<Rightarrow> rat \<Rightarrow> rat" where
  "float_mul a b = fl (a * b)"

definition float_add :: "rat \<Rightarrow> rat \<Rightarrow> rat" where
  "float_add a b = fl (a + b)"

definition py_sum :: "rat list \<Rightarrow> rat" where
  "py_sum xs = foldl float_add 0 xs"

definition float_round2 :: "rat \<Rightarrow> rat" where
  "float_round2 x = fl (py_round2 x)"

text \<open>\<open>statistics.mean\<close>, \<open>statistics.median\<close>, \<open>min\<close> and \<open>max\<close> of a list.\<close>

definition py_mean :: "rat list \<Rightarrow> py_error + rat" where
  "py_mean xs = (if xs = [] then Inl StatisticsError
                 else Inr (sum_list xs / of_nat (length xs)))"

definition py_median :: "rat list \<Rightarrow> py_error + rat" where
  "py_median xs =
     (let d = sort xs; n = length d
      in if n = 0 then Inl StatisticsError
         else if n mod 2 = 1 then Inr (d ! (n div 2))
         else Inr ((d ! (n div 2 - 1) + d ! (n div 2)) / 2))"

definition py_min :: "rat list \<Rightarrow> py_error + rat" where
  "py_min xs = (case xs of [] \<Rightarrow> Inl (ValueError ''min() arg is an empty sequence'')
                | x # r \<Rightarrow> Inr (fold min r x))"

definition py_max :: "rat list \<Rightarrow> py_error + rat" where
  "py_max xs = (case xs of [] \<Rightarrow> Inl (ValueError ''max() arg is an empty sequence'')
                | x # r \<Rightarrow> Inr (fold max r x))"

text \<open>\<open>Series.unique()\<close>: the distinct values in order of first appearance.\<close>

fun unique_from :: "'a list \<Rightarrow> 'a list \<Rightarrow> 'a list" where
  "unique_from seen [] = rev seen"
| "unique_from seen (x # xs) =
     (if x \<in> set seen then unique_from seen xs else unique_from (x # seen) xs)"

definition unique :: "'a list \<Rightarrow> 'a list" where
  "unique xs = unique_from [] xs"


section \<open>The dashboard simulator's records\<close>

text \<open>
  \<open>execute_query\<close> returns a dict with these seven keys; \<open>None\<close> is \<open>None\<close>.
  Times of day (\<open>timestamp\<close>) are seconds on the clock's scale.
\<close>

record QueryResult =
  query_name :: string
  query_id :: "string option"
  execution_time_ms :: rat
  row_count :: nat
  timestamp :: rat
  success :: bool
  error :: "string option"


text \<open>
  What the warehouse and the clocks do during one \<open>cursor.execute\<close> / \<open>fetchall\<close>:
  the reading of \<open>time.time()\<close> before the call, the call's outcome (the message of the
  exception it raised, or the fetched rows with the cursor's \<open>sfqid\<close>), the reading of
  \<open>time.time()\<close> after it, and the reading of \<open>datetime.now()\<close>. Clock readings are
  seconds, held in doubles; \<open>time.time()\<close> follows the system's wall clock, which can be
  set back between two readings. The simulator has no control over any of these, so
  they are its input.
\<close>

type_synonym row = "(string \<times> string) list"

record query_call =
  t_start :: rat
  outcome :: "string + (row list \<times> string option)"
  t_end :: rat
  now :: rat

text \<open>
  The fields of \<open>DashboardSimulator\<close> that the methods read or write.
  \<open>connection\<close> is \<open>False\<close> for \<open>None\<close>.
\<close>

record DashboardSimulator =
  warehouse :: string
  connection :: bool
  query_results :: "QueryResult list"

text \<open>The dict returned by \<open>simulate_single_dashboard_load\<close>; its key
  \<open>'query_results'\<close> is the field \<open>session_query_results\<close>.\<close>

record DashboardLoadResult =
  patient_id :: string
  total_load_time_ms :: rat
  session_query_results :: "QueryResult list"

text \<open>\<open>self.dashboard_queries\<close>, the SQL with runs of white space written as one blank.\<close>

definition dashboard_queries :: "(string \<times> string) list" where
  "dashboard_queries =
    [(''patient_summary'',
      ''SELECT p.PATIENT_ID, p.FIRST_NAME || ' ' || p.LAST_NAME AS PATIENT_NAME, DATEDIFF('YEAR', p.DATE_OF_BIRTH, CURRENT_DATE()) AS AGE, p.GENDER, COUNT(DISTINCT e.ENCOUNTER_ID) AS TOTAL_ENCOUNTERS, MAX(e.ENCOUNTER_DATE) AS LAST_VISIT_DATE FROM CLINICAL_DB.CURATED.PATIENTS p LEFT JOIN CLINICAL_DB.CURATED.ENCOUNTERS e ON p.PATIENT_ID = e.PATIENT_ID WHERE p.PATIENT_ID = %(patient_id)s GROUP BY 1, 2, 3, 4''),
     (''recent_encounters'',
      ''SELECT e.ENCOUNTER_ID, e.ENCOUNTER_TYPE, e.ENCOUNTER_DATE, e.DIAGNOSIS_DESCRIPTION, e.STATUS FROM CLINICAL_DB.CURATED.ENCOUNTERS e WHERE e.PATIENT_ID = %(patient_id)s ORDER BY e.ENCOUNTER_DATE DESC LIMIT 10''),
     (''recent_labs'',
      ''SELECT l.TEST_DATE, l.TEST_NAME, l.RESULT_VALUE, l.RESULT_UNIT, l.REFERENCE_RANGE, l.ABNORMAL_FLAG FROM CLINICAL_DB.CURATED.LAB_RESULTS l WHERE l.PATIENT_ID = %(patient_id)s ORDER BY l.TEST_DATE DESC LIMIT 20''),
     (''ed_census'',
      ''SELECT DATE_TRUNC('HOUR', e.ENCOUNTER_DATE) AS HOUR, COUNT(*) AS ED_VISITS, COUNT(DISTINCT e.PATIENT_ID) AS UNIQUE_PATIENTS FROM CLINICAL_DB.CURATED.ENCOUNTERS e WHERE e.ENCOUNTER_TYPE = 'EMERGENCY' AND e.ENCOUNTER_DATE >= DATEADD('HOUR', -24, CURRENT_TIMESTAMP()) GROUP BY 1 ORDER BY 1 DESC''),
     (''high_risk_alerts'',
      ''SELECT p.PATIENT_ID, p.FIRST_NAME || ' ' || p.LAST_NAME AS PATIENT_NAME, l.TEST_NAME, l.RESULT_VALUE, l.ABNORMAL_FLAG, DATEDIFF('HOUR', l.TEST_DATE, CURRENT_TIMESTAMP()) AS HOURS_AGO FROM CLINICAL_DB.CURATED.LAB_RESULTS l INNER JOIN CLINICAL_DB.CURATED.PATIENTS p ON l.PATIENT_ID = p.PATIENT_ID WHERE l.ABNORMAL_FLAG = 'CRITICAL' AND l.TEST_DATE >= DATEADD('HOUR', -24, CURRENT_TIMESTAMP()) ORDER BY l.TEST_DATE DESC LIMIT 50'')]"

text \<open>\<open>d[key]\<close> on a dict.\<close>

definition py_lookup :: "(string \<times> 'v) list \<Rightarrow> string \<Rightarrow> py_error + 'v" where
  "py_lookup d key = (case map_of d key of None \<Rightarrow> Inl (KeyError key) | Some v \<Rightarrow> Inr v)"


section \<open>The load generator\<close>

text \<open>
  \<open>execute_query\<close>. The cursor is taken from \<open>self.connection\<close> before the \<open>try\<close>, so
  with no connection the attribute error leaves the method. Inside the \<open>try\<close>, both
  branches of \<open>if params\<close> submit the query; whatever \<open>Exception\<close> the submission or
  the fetch raises is caught. \<open>cursor.close()\<close> in the \<open>finally\<close> block is the
  connector's, which returns normally.
\<close>

definition execute_query ::
  "DashboardSimulator \<Rightarrow> string \<Rightarrow> string \<Rightarrow> (string \<times> string) list option \<Rightarrow> query_call
     \<Rightarrow> py_error + QueryResult" where
  "execute_query self name query_sql params call =
     (if \<not> connection self
      then Inl (AttributeError ''NoneType object has no attribute cursor'')
      else
        let start_time = t_start call
        in case outcome call of
             Inr (results, sfqid) \<Rightarrow>
               let execution_time_ms = float_mul (float_sub (t_end call) start_time) 1000
               in Inr \<lparr>query_name = name, query_id = sfqid,
                       execution_time_ms = float_round2 execution_time_ms,
                       row_count = length results, timestamp = now call,
                       success = True, error = None\<rparr>
           | Inl e \<Rightarrow>
               let execution_time_ms = float_mul (float_sub (t_end call) start_time) 1000
               in Inr \<lparr>query_name = name, query_id = None,
                       execution_time_ms = float_round2 execution_time_ms,
                       row_count = 0, timestamp = now call,
                       success = False, error = Some e\<rparr>)"

text \<open>The dict that \<open>execute_query\<close> builds for a call once it holds a cursor.\<close>

definition result_of :: "string \<Rightarrow> query_call \<Rightarrow> QueryResult" where
  "result_of name call =
     \<lparr>query_name = name,
      query_id = (case outcome call of Inl e \<Rightarrow> None | Inr (rs, q) \<Rightarrow> q),
      execution_time_ms =
        float_round2 (float_mul (float_sub (t_end call) (t_start call)) 1000),
      row_count = (case outcome call of Inl e \<Rightarrow> 0 | Inr (rs, q) \<Rightarrow> length rs),
      timestamp = now call,
      success = (\<not> isl (outcome call)),
      error = (case outcome call of Inl e \<Rightarrow> Some e | Inr v \<Rightarrow> None)\<rparr>"

text \<open>
  \<open>get_sample_patient_ids(count)\<close>: the first \<open>limit = count\<close> rows of the patients table, or
  all of them when there are fewer (\<open>LIMIT count\<close>).
\<close>

definition get_sample_patient_ids :: "string list \<Rightarrow> nat \<Rightarrow> string list" where
  "get_sample_patient_ids table limit = take limit table"

text \<open>
  \<open>simulate_single_dashboard_load\<close>: the three patient queries in order, the \<open>k\<close>-th of
  them meeting the warehouse behaviour \<open>calls k\<close>; then the total.
\<close>

fun dashboard_loop ::
  "DashboardSimulator \<Rightarrow> string \<Rightarrow> (nat \<Rightarrow> query_call) \<Rightarrow> nat \<Rightarrow> string list
     \<Rightarrow> QueryResult list \<Rightarrow> py_error + QueryResult list" where
  "dashboard_loop self pid calls k [] dashboard_results = Inr dashboard_results"
| "dashboard_loop self pid calls k (name # names) dashboard_results =
     raise_bind (py_lookup dashboard_queries name) (\<lambda>query_sql.
     raise_bind (execute_query self name query_sql (Some [(''patient_id'', pid)]) (calls k))
       (\<lambda>result.
     dashboard_loop self pid calls (Suc k) names (dashboard_results @ [result])))"

definition simulate_single_dashboard_load ::
  "DashboardSimulator \<Rightarrow> string \<Rightarrow> (nat \<Rightarrow> query_call) \<Rightarrow> py_error + DashboardLoadResult" where
  "simulate_single_dashboard_load self pid calls =
     raise_bind
       (dashboard_loop self pid calls 0
          [''patient_summary'', ''recent_encounters'', ''recent_labs''] [])
       (\<lambda>dashboard_results.
          let total_time = py_sum (map execution_time_ms dashboard_results)
          in Inr \<lparr>patient_id = pid, total_load_time_ms = float_round2 total_time,
                  session_query_results = dashboard_results\<rparr>)"

text \<open>
  Drawing without replacement: \<open>n\<close> items of \<open>pool\<close>, the next one at the position the
  next raw choice selects among those left. With \<open>n = length pool\<close> this is an
  arbitrary order of the pool, which is how \<open>as_completed\<close> hands back the futures of a
  batch; with a smaller \<open>n\<close> it is what \<open>random.sample\<close> returns.
\<close>

fun draw_without_replacement :: "(nat \<Rightarrow> nat) \<Rightarrow> nat \<Rightarrow> 'a list \<Rightarrow> 'a list" where
  "draw_without_replacement choice 0 pool = []"
| "draw_without_replacement choice (Suc n) pool =
     (if pool = [] then []
      else let j = choice 0 mod length pool
           in pool ! j #
              draw_without_replacement (\<lambda>i. choice (Suc i)) n (take j pool @ drop (Suc j) pool))"

text \<open>
  The surroundings of a concurrent run: the patient ids the warehouse holds, what the
  warehouse and clocks do for query \<open>q\<close> of the session at position \<open>k\<close> of iteration
  \<open>it\<close>, and the order in which the sessions of each iteration complete.
\<close>

record simulation_env =
  patients_table :: "string list"
  db_call :: "nat \<Rightarrow> nat \<Rightarrow> nat \<Rightarrow> query_call"
  completion :: "nat \<Rightarrow> nat \<Rightarrow> nat"

text \<open>The loop over \<open>as_completed(futures)\<close>: \<open>future.result()\<close> re-raises what the
  session raised; otherwise the session and its query results are appended.\<close>

fun collect_completed ::
  "(py_error + DashboardLoadResult) list \<Rightarrow> DashboardLoadResult list \<times> DashboardSimulator
     \<Rightarrow> py_error + (DashboardLoadResult list \<times> DashboardSimulator)" where
  "collect_completed [] acc = Inr acc"
| "collect_completed (future # futures) (all_results, self) =
     raise_bind future (\<lambda>result.
       collect_completed futures
         (all_results @ [result],
          self\<lparr>query_results := query_results self @ session_query_results result\<rparr>))"

text \<open>
  The body of \<open>for iteration in range(num_iterations)\<close>.
  \<open>ThreadPoolExecutor(max_workers=num_concurrent)\<close> raises \<open>ValueError\<close> for a width
  below one. Each patient of the batch is submitted as one session; the sessions only
  read \<open>self\<close>, and the controller alone appends to the result collections.
\<close>

fun run_iterations ::
  "simulation_env \<Rightarrow> nat \<Rightarrow> string list \<Rightarrow> nat list
     \<Rightarrow> DashboardLoadResult list \<times> DashboardSimulator
     \<Rightarrow> py_error + (DashboardLoadResult list \<times> DashboardSimulator)" where
  "run_iterations env num_concurrent patient_ids [] acc = Inr acc"
| "run_iterations env num_concurrent patient_ids (iteration # rest) (all_results, self) =
     (let start_idx = iteration * num_concurrent;
          end_idx = start_idx + num_concurrent;
          iteration_patients = take (end_idx - start_idx) (drop start_idx patient_ids)
      in if num_concurrent \<le> 0
         then Inl (ValueError ''max_workers must be greater than 0'')
         else
           let futures = map (\<lambda>(k, pid). simulate_single_dashboard_load self pid
                                 (db_call env iteration k))
                           (enumerate 0 iteration_patients);
               completed = draw_without_replacement (completion env iteration)
                             (length futures) futures
           in raise_bind (collect_completed completed (all_results, self))
                (run_iterations env num_concurrent patient_ids rest))"

text \<open>
  \<open>simulate_concurrent_dashboards\<close>. \<open>connect()\<close> is taken to succeed.
\<close>

definition simulate_concurrent_dashboards ::
  "DashboardSimulator \<Rightarrow> nat \<Rightarrow> nat \<Rightarrow> simulation_env
     \<Rightarrow> py_error + (DashboardLoadResult list \<times> DashboardSimulator)" where
  "simulate_concurrent_dashboards self num_concurrent num_iterations env =
     (let self1 = (if \<not> connection self then self\<lparr>connection := True\<rparr> else self);
          patient_ids = get_sample_patient_ids (patients_table env)
                          (num_concurrent * num_iterations)
      in run_iterations env num_concurrent patient_ids [0..<num_iterations] ([], self1))"


section \<open>The synthetic record generator: what it draws from\<close>

text \<open>
  The generator consults five sources, each read in sequence: Python's \<open>random\<close>
  module, numpy's generator and Faker's generator, all three seeded with 42 when the
  module is loaded; the operating system's entropy behind \<open>uuid.uuid4()\<close>, which no
  seed reaches; and the clock behind \<open>datetime.now()\<close>. A source is the sequence of
  the choices it will make, one per library call; it is an input of the model, and
  reading it moves on to the rest of the sequence. Dates and times are microseconds.
\<close>

record sources =
  py_random :: "nat \<Rightarrow> nat"
  np_random :: "nat \<Rightarrow> nat"
  faker_random :: "nat \<Rightarrow> string"
  os_urandom :: "nat \<Rightarrow> nat"
  clock :: "nat \<Rightarrow> int"

definition random_next :: "sources \<Rightarrow> nat \<times> sources" where
  "random_next s = (py_random s 0, s\<lparr>py_random := (\<lambda>i. py_random s (Suc i))\<rparr>)"

text \<open>\<open>random.randint(a, b)\<close> with \<open>a \<le> b\<close>: some integer of \<open>[a, b]\<close>.\<close>

definition random_randint :: "int \<Rightarrow> int \<Rightarrow> sources \<Rightarrow> int \<times> sources" where
  "random_randint a b s =
     (let (r, s') = random_next s in (a + int (r mod nat (b - a + 1)), s'))"

text \<open>\<open>random.choice(seq)\<close> on a non-empty sequence: some element of it.\<close>

definition random_choice :: "'a list \<Rightarrow> sources \<Rightarrow> 'a \<times> sources" where
  "random_choice seq s = (let (r, s') = random_next s in (seq ! (r mod length seq), s'))"

text \<open>
  \<open>random.choices(population, weights=weights)[0]\<close> with positive weights: some
  element of the population. The weights shape how often each element comes, not
  which elements can come.
\<close>

definition random_choices :: "'a list \<Rightarrow> rat list \<Rightarrow> sources \<Rightarrow> 'a \<times> sources" where
  "random_choices population weights s =
     (let (r, s') = random_next s in (population ! (r mod length population), s'))"

text \<open>\<open>random.random()\<close>: a multiple of \<open>2 ^ -53\<close> in \<open>[0, 1)\<close>.\<close>

definition random_random :: "sources \<Rightarrow> rat \<times> sources" where
  "random_random s =
     (let (r, s') = random_next s in (of_nat (r mod 2 ^ 53) / 2 ^ 53, s'))"

text \<open>\<open>random.uniform(a, b)\<close> is \<open>a + (b - a) * random()\<close>.\<close>

definition random_uniform :: "rat \<Rightarrow> rat \<Rightarrow> sources \<Rightarrow> rat \<times> sources" where
  "random_uniform a b s = (let (u, s') = random_random s in (a + (b - a) * u, s'))"

text \<open>\<open>random.sample(population, k)\<close>: \<open>k\<close> items drawn without replacement.\<close>

definition random_sample :: "'a list \<Rightarrow> nat \<Rightarrow> sources \<Rightarrow> py_error + ('a list \<times> sources)" where
  "random_sample population k s =
     (if length population < k
      then Inl (ValueError ''Sample larger than population or is negative'')
      else Inr (draw_without_replacement (py_random s) k population,
                s\<lparr>py_random := (\<lambda>i. py_random s (k + i))\<rparr>))"

text \<open>
  \<open>np.random.poisson(lam)\<close>: a negative \<open>lam\<close> raises, \<open>lam = 0\<close> gives 0, and a
  positive \<open>lam\<close> can give any count.
\<close>

definition np_random_poisson :: "rat \<Rightarrow> sources \<Rightarrow> py_error + (nat \<times> sources)" where
  "np_random_poisson lam s =
     (if lam < 0 then Inl (ValueError ''lam < 0'')
      else Inr (if lam = 0 then 0 else np_random s 0,
                s\<lparr>np_random := (\<lambda>i. np_random s (Suc i))\<rparr>))"

text \<open>A call of a Faker provider (\<open>fake.first_name()\<close>, \<open>fake.ssn()\<close>, ...): the text
  of the next value Faker produces.\<close>

definition fake_next :: "sources \<Rightarrow> string \<times> sources" where
  "fake_next s = (faker_random s 0, s\<lparr>faker_random := (\<lambda>i. faker_random s (Suc i))\<rparr>)"

definition datetime_now :: "sources \<Rightarrow> int \<times> sources" where
  "datetime_now s = (clock s 0, s\<lparr>clock := (\<lambda>i. clock s (Suc i))\<rparr>)"

definition timedelta_days :: "int \<Rightarrow> int" where
  "timedelta_days d = d * 86400000000"

definition timedelta_hours :: "int \<Rightarrow> int" where
  "timedelta_hours h = h * 3600000000"

text \<open>
  \<open>uuid.uuid4().hex[:8].upper()\<close>: the first eight hexadecimal digits of a 128-bit
  value taken from the operating system's entropy, in upper case. They are its top 32
  bits, which the version and variant marks of a UUID leave alone.
\<close>

definition hex_digit :: "nat \<Rightarrow> char" where
  "hex_digit d = ''0123456789ABCDEF'' ! (d mod 16)"

definition hex8 :: "nat \<Rightarrow> string" where
  "hex8 n = map (\<lambda>i. hex_digit (n div 16 ^ i)) [7, 6, 5, 4, 3, 2, 1, 0]"

definition uuid4_hex8_upper :: "sources \<Rightarrow> string \<times> sources" where
  "uuid4_hex8_upper s =
     (hex8 ((os_urandom s 0 mod 2 ^ 128) div 2 ^ 96),
      s\<lparr>os_urandom := (\<lambda>i. os_urandom s (Suc i))\<rparr>)"

text \<open>\<open>str(n)\<close> for an integer, as the f-strings insert it.\<close>

function str_nat :: "nat \<Rightarrow> string" where
  "str_nat n = (if n < 10 then [char_of (48 + n)]
                else str_nat (n div 10) @ [char_of (48 + n mod 10)])"
  by pat_completeness auto
termination
  by (relation "measure (\<lambda>n. n)") auto

definition str_int :: "int \<Rightarrow> string" where
  "str_int i = (if i < 0 then CHR ''-'' # str_nat (nat (- i)) else str_nat (nat i))"

text \<open>\<open>s.replace('_', ' ').title()\<close> on ASCII text: a letter that follows a letter is
  made lower case, any other letter upper case.\<close>

definition is_ascii_upper :: "char \<Rightarrow> bool" where
  "is_ascii_upper c = (65 \<le> (of_char c :: nat) \<and> (of_char c :: nat) \<le> 90)"

definition is_ascii_lower :: "char \<Rightarrow> bool" where
  "is_ascii_lower c = (97 \<le> (of_char c :: nat) \<and> (of_char c :: nat) \<le> 122)"

fun title_from :: "bool \<Rightarrow> string \<Rightarrow> string" where
  "title_from previous_is_cased [] = []"
| "title_from previous_is_cased (c # cs) =
     (if is_ascii_lower c
      then (if previous_is_cased then c else char_of ((of_char c :: nat) - 32))
           # title_from True cs
      else if is_ascii_upper c
      then (if previous_is_cased then char_of ((of_char c :: nat) + 32) else c)
           # title_from True cs
      else c # title_from False cs)"

definition test_name_of :: "string \<Rightarrow> string" where
  "test_name_of test_code =
     title_from False (map (\<lambda>c. if c = CHR ''_'' then CHR '' '' else c) test_code)"


section \<open>The synthetic record generator: tables and rows\<close>

text \<open>
  A row of each of the three tables, with the columns of the source's dicts; the
  prefix tells the tables apart. \<open>None\<close> is \<open>None\<close>. A value Faker made is its text.
  \<open>L_RESULT_VALUE\<close> is the number whose \<open>str\<close> the source stores, and
  \<open>L_REFERENCE_RANGE\<close> the pair that the source joins with a dash.
\<close>

record Patient =
  P_PATIENT_ID :: string
  P_FIRST_NAME :: string
  P_LAST_NAME :: string
  P_DATE_OF_BIRTH :: string
  P_GENDER :: string
  P_SSN :: string
  P_EMAIL :: string
  P_PHONE :: string
  P_ADDRESS :: string
  P_CITY :: string
  P_STATE :: string
  P_ZIP_CODE :: string
  P_CREATED_AT :: int
  P_UPDATED_AT :: int
  P_DELETED_AT :: "int option"

record Encounter =
  E_ENCOUNTER_ID :: string
  E_PATIENT_ID :: string
  E_ENCOUNTER_TYPE :: string
  E_ENCOUNTER_DATE :: int
  E_PROVIDER_ID :: string
  E_FACILITY_ID :: string
  E_CHIEF_COMPLAINT :: string
  E_DIAGNOSIS_CODE :: string
  E_DIAGNOSIS_DESCRIPTION :: string
  E_DISCHARGE_DATE :: "int option"
  E_STATUS :: string
  E_CREATED_AT :: int
  E_UPDATED_AT :: int
  E_DELETED_AT :: "int option"

record LabResult =
  L_LAB_RESULT_ID :: string
  L_ENCOUNTER_ID :: string
  L_PATIENT_ID :: string
  L_TEST_CODE :: string
  L_TEST_NAME :: string
  L_RESULT_VALUE :: rat
  L_RESULT_UNIT :: string
  L_REFERENCE_RANGE :: "rat \<times> rat"
  L_ABNORMAL_FLAG :: "string option"
  L_TEST_DATE :: int
  L_RESULT_DATE :: int
  L_PROVIDER_ID :: string
  L_CREATED_AT :: int
  L_UPDATED_AT :: int
  L_DELETED_AT :: "int option"

record lab_test_info =
  unit :: string
  normal_range :: "rat \<times> rat"
  critical_threshold :: rat

record SyntheticClinicalDataGenerator =
  num_patients :: int
  patients :: "Patient list option"
  encounters :: "Encounter list option"
  lab_results :: "LabResult list option"

definition encounter_types :: "string list" where
  "encounter_types = [''EMERGENCY'', ''INPATIENT'', ''OUTPATIENT'', ''TELEHEALTH'']"

definition encounter_weights :: "rat list" where
  "encounter_weights = [15 / 100, 10 / 100, 60 / 100, 15 / 100]"

definition diagnosis_codes :: "(string \<times> string) list" where
  "diagnosis_codes =
    [(''E11.9'', ''Type 2 diabetes mellitus without complications''),
     (''I10'', ''Essential (primary) hypertension''),
     (''J44.9'', ''Chronic obstructive pulmonary disease, unspecified''),
     (''E78.5'', ''Hyperlipidemia, unspecified''),
     (''J06.9'', ''Acute upper respiratory infection, unspecified''),
     (''M25.50'', ''Pain in unspecified joint''),
     (''R51'', ''Headache''),
     (''K21.9'', ''Gastro-esophageal reflux disease without esophagitis''),
     (''E66.9'', ''Obesity, unspecified''),
     (''F41.9'', ''Anxiety disorder, unspecified'')]"

definition lab_tests :: "(string \<times> lab_test_info) list" where
  "lab_tests =
    [(''HBA1C'', \<lparr>unit = ''%'', normal_range = (4, 56 / 10), critical_threshold = 9\<rparr>),
     (''GLUCOSE'', \<lparr>unit = ''mg/dL'', normal_range = (70, 100), critical_threshold = 250\<rparr>),
     (''WBC'', \<lparr>unit = ''K/uL'', normal_range = (45 / 10, 11), critical_threshold = 20\<rparr>),
     (''HEMOGLOBIN'', \<lparr>unit = ''g/dL'', normal_range = (12, 16), critical_threshold = 7\<rparr>),
     (''CREATININE'', \<lparr>unit = ''mg/dL'', normal_range = (6 / 10, 12 / 10),
                       critical_threshold = 3\<rparr>),
     (''ALT'', \<lparr>unit = ''U/L'', normal_range = (7, 56), critical_threshold = 200\<rparr>),
     (''CHOLESTEROL'', \<lparr>unit = ''mg/dL'', normal_range = (125, 200),
                        critical_threshold = 300\<rparr>),
     (''TROPONIN'', \<lparr>unit = ''ng/mL'', normal_range = (0, 4 / 100), critical_threshold = 1\<rparr>)]"

definition new_generator :: "int \<Rightarrow> SyntheticClinicalDataGenerator" where
  "new_generator n = \<lparr>num_patients = n, patients = None, encounters = None, lab_results = None\<rparr>"


section \<open>The synthetic record generator: the three passes\<close>

text \<open>The dict built in the loop of \<open>generate_patients\<close>, its values in the order
  the dict display evaluates them.\<close>

definition new_patient :: "sources \<Rightarrow> Patient \<times> sources" where
  "new_patient s0 =
     (let (uid, s1) = uuid4_hex8_upper s0;
          (first_name, s2) = fake_next s1;
          (last_name, s3) = fake_next s2;
          (date_of_birth, s4) = fake_next s3;
          (gender, s5) = random_choice [''Male'', ''Female'', ''Other''] s4;
          (ssn, s6) = fake_next s5;
          (email, s7) = fake_next s6;
          (phone_number, s8) = fake_next s7;
          (street_address, s9) = fake_next s8;
          (city, s10) = fake_next s9;
          (state_abbr, s11) = fake_next s10;
          (zipcode, s12) = fake_next s11;
          (now1, s13) = datetime_now s12;
          (days, s14) = random_randint 365 3650 s13;
          (now2, s15) = datetime_now s14
      in (\<lparr>P_PATIENT_ID = ''PAT-'' @ uid,
           P_FIRST_NAME = first_name,
           P_LAST_NAME = last_name,
           P_DATE_OF_BIRTH = date_of_birth,
           P_GENDER = gender,
           P_SSN = ssn,
           P_EMAIL = email,
           P_PHONE = phone_number,
           P_ADDRESS = street_address,
           P_CITY = city,
           P_STATE = state_abbr,
           P_ZIP_CODE = zipcode,
           P_CREATED_AT = now1 - timedelta_days days,
           P_UPDATED_AT = now2,
           P_DELETED_AT = None\<rparr>, s15))"

fun patients_loop :: "nat \<Rightarrow> sources \<Rightarrow> Patient list \<times> sources" where
  "patients_loop 0 s = ([], s)"
| "patients_loop (Suc n) s =
     (let (patient, s1) = new_patient s;
          (rest, s2) = patients_loop n s1
      in (patient # rest, s2))"

text \<open>\<open>generate_patients\<close>; \<open>range\<close> of a negative count is empty.\<close>

definition generate_patients ::
  "SyntheticClinicalDataGenerator \<Rightarrow> sources \<Rightarrow> SyntheticClinicalDataGenerator \<times> sources" where
  "generate_patients self s =
     (let (patients_data, s') = patients_loop (nat (num_patients self)) s
      in (self\<lparr>patients := Some patients_data\<rparr>, s'))"

text \<open>The body of the inner loop of \<open>generate_encounters\<close>.\<close>

definition new_encounter :: "Patient \<Rightarrow> sources \<Rightarrow> py_error + (Encounter \<times> sources)" where
  "new_encounter patient s0 =
     (let patient_created = P_CREATED_AT patient;
          (encounter_type, s1) = random_choices encounter_types encounter_weights s0;
          (days_after_creation, s2) = random_randint 0 (365 * 2) s1;
          encounter_date = patient_created + timedelta_days days_after_creation;
          (discharge_date, s3) =
             (if encounter_type \<in> set [''INPATIENT'', ''EMERGENCY'']
              then let (los_hours, t) = random_randint 2 240 s2
                   in (Some (encounter_date + timedelta_hours los_hours), t)
              else (None, s2));
          (diagnosis_code, s4) = random_choice (map fst diagnosis_codes) s3;
          (uid, s5) = uuid4_hex8_upper s4;
          (provider, s6) = random_randint 1000 9999 s5;
          (facility, s7) = random_randint 100 999 s6;
          (chief_complaint, s8) = fake_next s7
      in raise_bind (py_lookup diagnosis_codes diagnosis_code) (\<lambda>description.
         Inr (\<lparr>E_ENCOUNTER_ID = ''ENC-'' @ uid,
               E_PATIENT_ID = P_PATIENT_ID patient,
               E_ENCOUNTER_TYPE = encounter_type,
               E_ENCOUNTER_DATE = encounter_date,
               E_PROVIDER_ID = ''PROV-'' @ str_int provider,
               E_FACILITY_ID = ''FAC-'' @ str_int facility,
               E_CHIEF_COMPLAINT = chief_complaint,
               E_DIAGNOSIS_CODE = diagnosis_code,
               E_DIAGNOSIS_DESCRIPTION = description,
               E_DISCHARGE_DATE = discharge_date,
               E_STATUS = (if discharge_date \<noteq> None then ''DISCHARGED'' else ''ACTIVE''),
               E_CREATED_AT = encounter_date,
               E_UPDATED_AT = (case discharge_date of Some d \<Rightarrow> d | None \<Rightarrow> encounter_date),
               E_DELETED_AT = None\<rparr>, s8)))"

fun patient_encounters ::
  "Patient \<Rightarrow> nat \<Rightarrow> sources \<Rightarrow> py_error + (Encounter list \<times> sources)" where
  "patient_encounters patient 0 s = Inr ([], s)"
| "patient_encounters patient (Suc n) s =
     raise_bind (new_encounter patient s) (\<lambda>(encounter, s1).
     raise_bind (patient_encounters patient n s1) (\<lambda>(rest, s2).
     Inr (encounter # rest, s2)))"

text \<open>The loop over \<open>self.patients.iterrows()\<close>.\<close>

fun encounters_loop ::
  "rat \<Rightarrow> Patient list \<Rightarrow> sources \<Rightarrow> py_error + (Encounter list \<times> sources)" where
  "encounters_loop encounters_per_patient_avg [] s = Inr ([], s)"
| "encounters_loop encounters_per_patient_avg (patient # rest) s =
     raise_bind (np_random_poisson encounters_per_patient_avg s) (\<lambda>(drawn, s1).
     let num_encounters = max 1 (min drawn 20)
     in raise_bind (patient_encounters patient num_encounters s1) (\<lambda>(made, s2).
        raise_bind (encounters_loop encounters_per_patient_avg rest s2) (\<lambda>(more, s3).
        Inr (made @ more, s3))))"

definition generate_encounters ::
  "SyntheticClinicalDataGenerator \<Rightarrow> rat \<Rightarrow> sources
     \<Rightarrow> py_error + (SyntheticClinicalDataGenerator \<times> sources)" where
  "generate_encounters self encounters_per_patient_avg s =
     (case patients self of
        None \<Rightarrow> Inl (ValueError ''Must generate patients first'')
      | Some rows \<Rightarrow>
          raise_bind (encounters_loop encounters_per_patient_avg rows s)
            (\<lambda>(encounters_data, s'). Inr (self\<lparr>encounters := Some encounters_data\<rparr>, s')))"

text \<open>The body of the loop over \<open>selected_tests\<close> in \<open>generate_lab_results\<close>.\<close>

definition new_lab_result ::
  "Encounter \<Rightarrow> string \<Rightarrow> sources \<Rightarrow> py_error + (LabResult \<times> sources)" where
  "new_lab_result encounter test_code s0 =
     raise_bind (py_lookup lab_tests test_code) (\<lambda>test_info.
     let (normal_min, normal_max) = normal_range test_info;
         (result_type, s1) =
            random_choices [''normal'', ''abnormal'', ''critical'']
              [80 / 100, 15 / 100, 5 / 100] s0;
         (result_value, abnormal_flag, s2) =
            (if result_type = ''normal''
             then let (v, t) = random_uniform normal_min normal_max s1
                  in (py_round2 v, None, t)
             else if result_type = ''abnormal''
             then let (u, t) = random_random s1
                  in if u < 1 / 2
                     then let (v, t') = random_uniform normal_max (normal_max * (3 / 2)) t
                          in (py_round2 v, Some ''HIGH'', t')
                     else let (v, t') = random_uniform (normal_min * (1 / 2)) normal_min t
                          in (py_round2 v, Some ''LOW'', t')
             else let (v, t) = random_uniform (normal_max * (3 / 2))
                                 (critical_threshold test_info) s1
                  in (py_round2 v, Some ''CRITICAL'', t));
         (test_hours, s3) = random_randint 0 12 s2;
         test_date = E_ENCOUNTER_DATE encounter + timedelta_hours test_hours;
         (result_hours, s4) = random_randint 1 48 s3;
         result_date = test_date + timedelta_hours result_hours;
         (uid, s5) = uuid4_hex8_upper s4
     in Inr (\<lparr>L_LAB_RESULT_ID = ''LAB-'' @ uid,
              L_ENCOUNTER_ID = E_ENCOUNTER_ID encounter,
              L_PATIENT_ID = E_PATIENT_ID encounter,
              L_TEST_CODE = test_code,
              L_TEST_NAME = test_name_of test_code,
              L_RESULT_VALUE = result_value,
              L_RESULT_UNIT = unit test_info,
              L_REFERENCE_RANGE = (normal_min, normal_max),
              L_ABNORMAL_FLAG = abnormal_flag,
              L_TEST_DATE = test_date,
              L_RESULT_DATE = result_date,
              L_PROVIDER_ID = E_PROVIDER_ID encounter,
              L_CREATED_AT = result_date,
              L_UPDATED_AT = result_date,
              L_DELETED_AT = None\<rparr>, s5))"

fun selected_tests_loop ::
  "Encounter \<Rightarrow> string list \<Rightarrow> sources \<Rightarrow> py_error + (LabResult list \<times> sources)" where
  "selected_tests_loop encounter [] s = Inr ([], s)"
| "selected_tests_loop encounter (test_code # rest) s =
     raise_bind (new_lab_result encounter test_code s) (\<lambda>(lab_result, s1).
     raise_bind (selected_tests_loop encounter rest s1) (\<lambda>(more, s2).
     Inr (lab_result # more, s2)))"

text \<open>
  The body of the loop over \<open>self.encounters.iterrows()\<close>: nothing for an encounter
  whose type is not one of the three listed; otherwise the drawn number of tests, the
  sample of test codes and a lab result for each.
\<close>

definition encounter_lab_results ::
  "rat \<Rightarrow> Encounter \<Rightarrow> sources \<Rightarrow> py_error + (LabResult list \<times> sources)" where
  "encounter_lab_results labs_per_encounter_avg encounter s =
     (if E_ENCOUNTER_TYPE encounter \<notin> set [''EMERGENCY'', ''INPATIENT'', ''OUTPATIENT'']
      then Inr ([], s)
      else
        raise_bind (np_random_poisson labs_per_encounter_avg s) (\<lambda>(drawn, s1).
        let num_labs = max 1 (min drawn 10)
        in raise_bind (random_sample (map fst lab_tests)
                         (min num_labs (length lab_tests)) s1) (\<lambda>(selected_tests, s2).
           selected_tests_loop encounter selected_tests s2)))"

fun lab_results_loop ::
  "rat \<Rightarrow> Encounter list \<Rightarrow> sources \<Rightarrow> py_error + (LabResult list \<times> sources)" where
  "lab_results_loop labs_per_encounter_avg [] s = Inr ([], s)"
| "lab_results_loop labs_per_encounter_avg (encounter # rest) s =
     raise_bind (encounter_lab_results labs_per_encounter_avg encounter s) (\<lambda>(made, s1).
     raise_bind (lab_results_loop labs_per_encounter_avg rest s1) (\<lambda>(more, s2).
     Inr (made @ more, s2)))"

definition generate_lab_results ::
  "SyntheticClinicalDataGenerator \<Rightarrow> rat \<Rightarrow> sources
     \<Rightarrow> py_error + (SyntheticClinicalDataGenerator \<times> sources)" where
  "generate_lab_results self labs_per_encounter_avg s =
     (case encounters self of
        None \<Rightarrow> Inl (ValueError ''Must generate encounters first'')
      | Some rows \<Rightarrow>
          raise_bind (lab_results_loop labs_per_encounter_avg rows s)
            (\<lambda>(lab_results_data, s'). Inr (self\<lparr>lab_results := Some lab_results_data\<rparr>, s')))"

text \<open>
  The relational and temporal invariants of the specification's data model, on the three
  tables a generator holds: every encounter has a patient of the table with its
  \<open>PATIENT_ID\<close> that was not created after the encounter; every lab result has an
  encounter of the table with its \<open>ENCOUNTER_ID\<close> and \<open>PATIENT_ID\<close> that is not
  dated after the test; a discharge is not before its encounter, and a result not
  before its test.
\<close>

definition spec_invariants :: "SyntheticClinicalDataGenerator \<Rightarrow> bool" where
  "spec_invariants g =
     (case (patients g, encounters g, lab_results g) of
        (Some ps, Some es, Some ls) \<Rightarrow>
          (\<forall>e \<in> set es. \<exists>p \<in> set ps.
             E_PATIENT_ID e = P_PATIENT_ID p \<and> P_CREATED_AT p \<le> E_ENCOUNTER_DATE e) \<and>
          (\<forall>e \<in> set es. case E_DISCHARGE_DATE e of
                            None \<Rightarrow> True | Some d \<Rightarrow> E_ENCOUNTER_DATE e \<le> d) \<and>
          (\<forall>l \<in> set ls. \<exists>e \<in> set es.
             L_ENCOUNTER_ID l = E_ENCOUNTER_ID e \<and> L_PATIENT_ID l = E_PATIENT_ID e \<and>
             E_ENCOUNTER_DATE e \<le> L_TEST_DATE l) \<and>
          (\<forall>l \<in> set ls. L_TEST_DATE l \<le> L_RESULT_DATE l)
      | _ \<Rightarrow> False)"

text \<open>The clamp of the specification: a count brought into \<open>[lo, hi]\<close>.\<close>

definition spec_clamp :: "nat \<Rightarrow> nat \<Rightarrow> nat \<Rightarrow> nat" where
  "spec_clamp lo hi n = max lo (min n hi)"


section \<open>The latency reporter\<close>

text \<open>
  \<open>DashboardSimulator.percentile\<close>:
  \<^verbatim>\<open>size = len(data); return sorted(data)[int(size * percentile / 100)]\<close>.
  The callers pass the integers 95 and 99, so \<open>percentile\<close> is an integer here and
  \<open>size * percentile\<close> is exact.
\<close>

definition percentile :: "'a::linorder list \<Rightarrow> int \<Rightarrow> py_error + 'a" where
  "percentile data p =
     (let size = int (length data)
      in py_getitem (sort data) (int_of_div_100 (size * p)))"

text \<open>
  What \<open>generate_performance_report\<close> prints, as a value (the method itself returns
  \<open>None\<close> in every case): either the one line "No query results to analyze", which is
  \<open>NoQueryResults\<close>, or the counts, one block per query name and one block for the
  whole run. The numbers are the ones handed to the format strings
  (before \<open>:.2f\<close> and \<open>:.1f\<close> cut them for display); \<open>target_met\<close> and \<open>sla_met\<close> say
  which of the two messages is printed.
\<close>

record type_metrics =
  tm_query_name :: string
  tm_count :: nat
  tm_mean :: rat
  tm_median :: rat
  tm_min :: rat
  tm_max :: rat
  tm_p95 :: rat
  tm_p99 :: rat
  tm_pct_under_100ms :: rat
  tm_target_met :: bool

record overall_metrics =
  om_mean :: rat
  om_median :: rat
  om_p95 :: rat
  om_p99 :: rat
  om_under_100ms_pct :: rat
  om_sla_met :: bool

record performance_report =
  total_executed :: nat
  successful_count :: nat
  successful_pct :: rat
  failed_count :: nat
  per_query :: "type_metrics list"
  overall :: "overall_metrics option"

datatype report_output = NoQueryResults | Printed performance_report

text \<open>The body of the loop over \<open>successful_queries['query_name'].unique()\<close>.\<close>

definition query_metrics :: "QueryResult list \<Rightarrow> string \<Rightarrow> py_error + type_metrics" where
  "query_metrics successful_queries name =
     (let query_data = filter (\<lambda>r. query_name r = name) successful_queries;
          times = map execution_time_ms query_data
      in raise_bind (py_mean times) (\<lambda>mean.
         raise_bind (py_median times) (\<lambda>median.
         raise_bind (py_min times) (\<lambda>mn.
         raise_bind (py_max times) (\<lambda>mx.
         raise_bind (percentile times 95) (\<lambda>p95.
         raise_bind (percentile times 99) (\<lambda>p99.
         let under_100ms = length (filter (\<lambda>t. t < 100) times)
         in raise_bind (py_truediv (of_nat under_100ms) (of_nat (length times))) (\<lambda>q.
            let pct_under_100ms = q * 100
            in Inr \<lparr>tm_query_name = name, tm_count = length times, tm_mean = mean,
                    tm_median = median, tm_min = mn, tm_max = mx, tm_p95 = p95,
                    tm_p99 = p99, tm_pct_under_100ms = pct_under_100ms,
                    tm_target_met = (95 \<le> pct_under_100ms)\<rparr>))))))))"

fun query_metrics_loop :: "QueryResult list \<Rightarrow> string list \<Rightarrow> py_error + type_metrics list" where
  "query_metrics_loop successful_queries [] = Inr []"
| "query_metrics_loop successful_queries (name # names) =
     raise_bind (query_metrics successful_queries name) (\<lambda>m.
     raise_bind (query_metrics_loop successful_queries names) (\<lambda>ms. Inr (m # ms)))"

definition overall_latency :: "rat list \<Rightarrow> py_error + overall_metrics" where
  "overall_latency all_times =
     raise_bind (py_mean all_times) (\<lambda>mean.
     raise_bind (py_median all_times) (\<lambda>median.
     raise_bind (percentile all_times 95) (\<lambda>p95.
     raise_bind (percentile all_times 99) (\<lambda>p99.
     raise_bind (py_truediv (of_nat (length (filter (\<lambda>t. t < 100) all_times)))
                            (of_nat (length all_times))) (\<lambda>q.
     let under_100ms_pct = q * 100
     in Inr \<lparr>om_mean = mean, om_median = median, om_p95 = p95, om_p99 = p99,
             om_under_100ms_pct = under_100ms_pct,
             om_sla_met = (95 \<le> under_100ms_pct)\<rparr>)))))"

text \<open>
  \<open>generate_performance_report\<close>; the method reads nothing of \<open>self\<close> but the
  collection \<open>self.query_results\<close>, which is the argument here. The CSV file
  written at the end holds the collection unchanged and is not part of the value.
\<close>

definition generate_performance_report :: "QueryResult list \<Rightarrow> py_error + report_output" where
  "generate_performance_report self_query_results =
     (if self_query_results = [] then Inr NoQueryResults
      else
        let df = self_query_results;
            successful_queries = filter (\<lambda>r. success r = True) df
        in raise_bind (py_truediv (of_nat (length successful_queries)) (of_nat (length df)))
             (\<lambda>q.
           let pct = q * 100; failed = length df - length successful_queries
           in if 0 < length successful_queries then
                raise_bind (query_metrics_loop successful_queries
                              (unique (map query_name successful_queries))) (\<lambda>per.
                raise_bind (overall_latency (map execution_time_ms successful_queries))
                  (\<lambda>ov.
                Inr (Printed \<lparr>total_executed = length df,
                       successful_count = length successful_queries,
                       successful_pct = pct, failed_count = failed,
                       per_query = per, overall = Some ov\<rparr>)))
              else
                Inr (Printed \<lparr>total_executed = length df,
                       successful_count = length successful_queries,
                       successful_pct = pct, failed_count = failed,
                       per_query = [], overall = None\<rparr>)))"

text \<open>
  The specification's words for the reporter, to compare the code with: the fraction of
  a collection of samples strictly below the 100 ms threshold, and the nearest-rank index.
\<close>

definition spec_fraction_under :: "rat list \<Rightarrow> rat" where
  "spec_fraction_under samples =
     of_nat (length (filter (\<lambda>t. t < 100) samples)) / of_nat (length samples)"

definition latency_samples :: "QueryResult list \<Rightarrow> string \<Rightarrow> rat list" where
  "latency_samples qs name =
     map execution_time_ms (filter (\<lambda>r. query_name r = name) (filter success qs))"

definition spec_rank_index :: "nat \<Rightarrow> int \<Rightarrow> int" where
  "spec_rank_index n p = \<lfloor>(of_nat n * of_int p / 100 :: rat)\<rfloor>"

definition spec_clamp_index :: "nat \<Rightarrow> int \<Rightarrow> nat" where
  "spec_clamp_index n i = nat (max 0 (min (int n - 1) i))"


section \<open>Facts about the Python primitives\<close>

lemma raise_bind_Inr [simp]: "raise_bind (Inr v) k = k v"
  by (simp add: raise_bind_def)

lemma raise_bind_Inl [simp]: "raise_bind (Inl e) k = Inl e"
  by (simp add: raise_bind_def)

lemma int_of_div_100_nonneg: "0 \<le> x \<Longrightarrow> int_of_div_100 x = x div 100"
  by (simp add: int_of_div_100_def)

lemma spec_rank_index_div: "spec_rank_index n p = (int n * p) div 100"
proof -
  have "(of_nat n * of_int p / 100 :: rat) = of_int (int n * p) / of_int 100" by simp
  then show ?thesis unfolding spec_rank_index_def by (simp only: floor_divide_of_int_eq)
qed

lemma rank_in_range:
  assumes "0 < n" "0 \<le> p" "p < 100"
  shows "0 \<le> (int n * p) div 100 \<and> (int n * p) div 100 < int n"
proof -
  define x where "x = int n * p"
  have "x \<le> int n * 99" using assms by (simp add: x_def mult_left_mono)
  moreover have "0 \<le> x" using assms by (simp add: x_def)
  moreover have "0 < int n" using assms by simp
  ultimately have "0 \<le> x div 100 \<and> x div 100 < int n" by arith
  then show ?thesis by (simp add: x_def)
qed

lemma percentile_in_range:
  assumes "data \<noteq> []" "0 \<le> p" "p < 100"
  shows "percentile data p = Inr (sort data ! nat ((int (length data) * p) div 100))"
proof -
  have n: "0 < length data" using assms by simp
  have r: "0 \<le> (int (length data) * p) div 100 \<and> (int (length data) * p) div 100 < int (length data)"
    using rank_in_range[OF n assms(2,3)] .
  have "0 \<le> int (length data) * p" using assms by simp
  then show ?thesis using r
    by (simp add: percentile_def py_getitem_def int_of_div_100_nonneg Let_def)
qed

lemma set_unique_from: "set (unique_from seen xs) = set seen \<union> set xs"
  by (induction xs arbitrary: seen) auto

lemma distinct_unique_from: "distinct seen \<Longrightarrow> distinct (unique_from seen xs)"
  by (induction xs arbitrary: seen) auto

lemma set_unique: "set (unique xs) = set xs"
  by (simp add: unique_def set_unique_from)

lemma distinct_unique: "distinct (unique xs)"
  by (simp add: unique_def distinct_unique_from)

lemma py_mean_ok: "xs \<noteq> [] \<Longrightarrow> \<exists>v. py_mean xs = Inr v"
  by (simp add: py_mean_def)

lemma sort_eq_Nil_iff: "sort xs = [] \<longleftrightarrow> xs = []"
  by (metis length_sort length_0_conv)

lemma py_median_ok:
  assumes "xs \<noteq> []"
  shows "\<exists>v. py_median xs = Inr v"
proof (cases "length xs mod 2 = 1")
  case True
  then have "py_median xs = Inr (sort xs ! (length xs div 2))"
    using assms by (simp add: py_median_def Let_def sort_eq_Nil_iff)
  then show ?thesis by blast
next
  case False
  then have "py_median xs = Inr ((sort xs ! (length xs div 2 - 1) + sort xs ! (length xs div 2)) / 2)"
    using assms by (simp add: py_median_def Let_def sort_eq_Nil_iff)
  then show ?thesis by blast
qed

lemma py_min_ok: "xs \<noteq> [] \<Longrightarrow> \<exists>v. py_min xs = Inr v"
  by (cases xs) (simp_all add: py_min_def)

lemma py_max_ok: "xs \<noteq> [] \<Longrightarrow> \<exists>v. py_max xs = Inr v"
  by (cases xs) (simp_all add: py_max_def)

lemma percentile_ok: "xs \<noteq> [] \<Longrightarrow> 0 \<le> p \<Longrightarrow> p < 100 \<Longrightarrow> \<exists>v. percentile xs p = Inr v"
  by (simp add: percentile_in_range)

lemma py_truediv_ok: "b \<noteq> 0 \<Longrightarrow> py_truediv a b = Inr (a / b)"
  by (simp add: py_truediv_def)

lemma query_metrics_value:
  fixes S name
  defines "ts \<equiv> map execution_time_ms (filter (\<lambda>r. query_name r = name) S)"
  assumes ne: "ts \<noteq> []"
  shows "\<exists>a b c d e f. py_mean ts = Inr a \<and> py_median ts = Inr b \<and> py_min ts = Inr c \<and>
     py_max ts = Inr d \<and> percentile ts 95 = Inr e \<and> percentile ts 99 = Inr f \<and>
     query_metrics S name =
       Inr \<lparr>tm_query_name = name, tm_count = length ts, tm_mean = a, tm_median = b,
            tm_min = c, tm_max = d, tm_p95 = e, tm_p99 = f,
            tm_pct_under_100ms = spec_fraction_under ts * 100,
            tm_target_met = (95 \<le> spec_fraction_under ts * 100)\<rparr>"
proof -
  obtain a where a: "py_mean ts = Inr a" using py_mean_ok[OF ne] by blast
  obtain b where b: "py_median ts = Inr b" using py_median_ok[OF ne] by blast
  obtain c where c: "py_min ts = Inr c" using py_min_ok[OF ne] by blast
  obtain d where d: "py_max ts = Inr d" using py_max_ok[OF ne] by blast
  obtain e where e: "percentile ts 95 = Inr e" using percentile_ok[OF ne, of 95] by auto
  obtain f where f: "percentile ts 99 = Inr f" using percentile_ok[OF ne, of 99] by auto
  have g: "py_truediv (of_nat (length (filter (\<lambda>t. t < 100) ts))) (of_nat (length ts))
        = Inr (spec_fraction_under ts)"
    using ne by (simp add: py_truediv_ok spec_fraction_under_def)
  have "query_metrics S name =
       Inr \<lparr>tm_query_name = name, tm_count = length ts, tm_mean = a, tm_median = b,
            tm_min = c, tm_max = d, tm_p95 = e, tm_p99 = f,
            tm_pct_under_100ms = spec_fraction_under ts * 100,
            tm_target_met = (95 \<le> spec_fraction_under ts * 100)\<rparr>"
    unfolding query_metrics_def Let_def ts_def[symmetric]
    by (simp only: a b c d e f g raise_bind_Inr)
  then show ?thesis using a b c d e f by blast
qed

lemma query_metrics_empty:
  "map execution_time_ms (filter (\<lambda>r. query_name r = name) S) = [] \<Longrightarrow>
   query_metrics S name = Inl StatisticsError"
  unfolding query_metrics_def Let_def by (simp add: py_mean_def)

lemma query_metrics_ok:
  assumes "name \<in> query_name ` set S"
  shows "\<exists>m. query_metrics S name = Inr m"
proof -
  have "map execution_time_ms (filter (\<lambda>r. query_name r = name) S) \<noteq> []"
    using assms by (auto simp: filter_empty_conv)
  from query_metrics_value[OF this] show ?thesis by blast
qed

lemma query_metrics_fields:
  assumes "query_metrics S name = Inr m"
  defines "ts \<equiv> map execution_time_ms (filter (\<lambda>r. query_name r = name) S)"
  shows "tm_query_name m = name" "tm_count m = length ts"
    "py_mean ts = Inr (tm_mean m)" "py_median ts = Inr (tm_median m)"
    "py_min ts = Inr (tm_min m)" "py_max ts = Inr (tm_max m)"
    "percentile ts 95 = Inr (tm_p95 m)" "percentile ts 99 = Inr (tm_p99 m)"
    "tm_pct_under_100ms m = spec_fraction_under ts * 100"
    "tm_target_met m = (95 \<le> spec_fraction_under ts * 100)"
    "ts \<noteq> []"
proof -
  show ne: "ts \<noteq> []" using assms(1) query_metrics_empty[of name S] by (auto simp: ts_def)
  from query_metrics_value[of name S] ne obtain a b c d e f where
    v: "py_mean ts = Inr a" "py_median ts = Inr b" "py_min ts = Inr c"
     "py_max ts = Inr d" "percentile ts 95 = Inr e" "percentile ts 99 = Inr f"
    and q: "query_metrics S name =
       Inr \<lparr>tm_query_name = name, tm_count = length ts, tm_mean = a, tm_median = b,
            tm_min = c, tm_max = d, tm_p95 = e, tm_p99 = f,
            tm_pct_under_100ms = spec_fraction_under ts * 100,
            tm_target_met = (95 \<le> spec_fraction_under ts * 100)\<rparr>"
    unfolding ts_def by blast
  from q assms(1) have m: "m = \<lparr>tm_query_name = name, tm_count = length ts, tm_mean = a, tm_median = b,
            tm_min = c, tm_max = d, tm_p95 = e, tm_p99 = f,
            tm_pct_under_100ms = spec_fraction_under ts * 100,
            tm_target_met = (95 \<le> spec_fraction_under ts * 100)\<rparr>" by simp
  show "tm_query_name m = name" "tm_count m = length ts"
    "py_mean ts = Inr (tm_mean m)" "py_median ts = Inr (tm_median m)"
    "py_min ts = Inr (tm_min m)" "py_max ts = Inr (tm_max m)"
    "percentile ts 95 = Inr (tm_p95 m)" "percentile ts 99 = Inr (tm_p99 m)"
    "tm_pct_under_100ms m = spec_fraction_under ts * 100"
    "tm_target_met m = (95 \<le> spec_fraction_under ts * 100)"
    by (simp_all add: m v)
qed

lemma query_metrics_loop_ok:
  "set names \<subseteq> query_name ` set S \<Longrightarrow>
   \<exists>ms. query_metrics_loop S names = Inr ms \<and> map tm_query_name ms = names \<and>
        (\<forall>m \<in> set ms. query_metrics S (tm_query_name m) = Inr m)"
proof (induction names)
  case Nil
  then show ?case by simp
next
  case (Cons name names)
  then obtain m where m: "query_metrics S name = Inr m" using query_metrics_ok[of name S] by auto
  from Cons obtain ms where ms: "query_metrics_loop S names = Inr ms"
     "map tm_query_name ms = names" "\<forall>m \<in> set ms. query_metrics S (tm_query_name m) = Inr m"
    by auto
  have "tm_query_name m = name" using query_metrics_fields(1)[OF m] .
  then show ?case using m ms by simp
qed

lemma overall_latency_value:
  assumes ne: "ts \<noteq> []"
  shows "\<exists>a b e f. py_mean ts = Inr a \<and> py_median ts = Inr b \<and>
     percentile ts 95 = Inr e \<and> percentile ts 99 = Inr f \<and>
     overall_latency ts =
       Inr \<lparr>om_mean = a, om_median = b, om_p95 = e, om_p99 = f,
            om_under_100ms_pct = spec_fraction_under ts * 100,
            om_sla_met = (95 \<le> spec_fraction_under ts * 100)\<rparr>"
proof -
  obtain a where a: "py_mean ts = Inr a" using py_mean_ok[OF ne] by blast
  obtain b where b: "py_median ts = Inr b" using py_median_ok[OF ne] by blast
  obtain e where e: "percentile ts 95 = Inr e" using percentile_ok[OF ne, of 95] by auto
  obtain f where f: "percentile ts 99 = Inr f" using percentile_ok[OF ne, of 99] by auto
  have g: "py_truediv (of_nat (length (filter (\<lambda>t. t < 100) ts))) (of_nat (length ts))
        = Inr (spec_fraction_under ts)"
    using ne by (simp add: py_truediv_ok spec_fraction_under_def)
  have "overall_latency ts =
       Inr \<lparr>om_mean = a, om_median = b, om_p95 = e, om_p99 = f,
            om_under_100ms_pct = spec_fraction_under ts * 100,
            om_sla_met = (95 \<le> spec_fraction_under ts * 100)\<rparr>"
    unfolding overall_latency_def Let_def
    by (simp only: a b e f g raise_bind_Inr)
  then show ?thesis using a b e f by blast
qed

lemma report_with_success:
  fixes qs
  defines "S \<equiv> filter success qs"
  assumes ne: "S \<noteq> []"
  shows "\<exists>per ov.
     query_metrics_loop S (unique (map query_name S)) = Inr per \<and>
     overall_latency (map execution_time_ms S) = Inr ov \<and>
     generate_performance_report qs =
       Inr (Printed \<lparr>total_executed = length qs, successful_count = length S,
              successful_pct = of_nat (length S) / of_nat (length qs) * 100,
              failed_count = length qs - length S, per_query = per, overall = Some ov\<rparr>)"
proof -
  have qne: "qs \<noteq> []" using ne by (auto simp: S_def)
  have "set (unique (map query_name S)) \<subseteq> query_name ` set S" by (simp add: set_unique)
  from query_metrics_loop_ok[OF this] obtain per where
    per: "query_metrics_loop S (unique (map query_name S)) = Inr per" by blast
  have "map execution_time_ms S \<noteq> []" using ne by simp
  from overall_latency_value[OF this] obtain ov where
    ov: "overall_latency (map execution_time_ms S) = Inr ov" by blast
  have d: "py_truediv (of_nat (length S)) (of_nat (length qs)) = Inr (of_nat (length S) / of_nat (length qs))"
    using qne by (simp add: py_truediv_ok)
  have "generate_performance_report qs =
       Inr (Printed \<lparr>total_executed = length qs, successful_count = length S,
              successful_pct = of_nat (length S) / of_nat (length qs) * 100,
              failed_count = length qs - length S, per_query = per, overall = Some ov\<rparr>)"
    using qne ne unfolding generate_performance_report_def Let_def
    by (simp add: S_def[symmetric] d per ov)
  then show ?thesis using per ov by blast
qed

lemma report_without_success:
  assumes "qs \<noteq> []" "filter success qs = []"
  shows "generate_performance_report qs =
       Inr (Printed \<lparr>total_executed = length qs, successful_count = 0,
              successful_pct = 0, failed_count = length qs, per_query = [], overall = None\<rparr>)"
  using assms unfolding generate_performance_report_def Let_def
  by (simp add: py_truediv_ok)

lemma report_never_raises: "\<exists>out. generate_performance_report qs = Inr out"
proof (cases "qs = []")
  case True
  then show ?thesis by (simp add: generate_performance_report_def)
next
  case False
  show ?thesis
  proof (cases "filter success qs = []")
    case True
    with False report_without_success show ?thesis by blast
  next
    case False
    from report_with_success[OF this] show ?thesis by blast
  qed
qed

section \<open>The percentile function (C2)\<close>

text \<open>
  C2 as it is written asks for the index \<open>floor(N * p / 100)\<close> clamped to the valid
  range. The code does not clamp: at \<open>p = 100\<close> the index is \<open>N\<close>, one past the
  end, and the subscript raises \<open>IndexError\<close>, where the clamped index would give the
  largest sample.
\<close>

theorem percentile_counterexample:
  "percentile [10, 20, 30, 40, 50 :: rat] 100 \<noteq>
     Inr (sort [10, 20, 30, 40, 50 :: rat] ! spec_clamp_index 5 (spec_rank_index 5 100))
   \<and> percentile [10, 20, 30, 40, 50 :: rat] 100 = Inl IndexError"
  by (simp add: percentile_def py_getitem_def int_of_div_100_def)

text \<open>
  C2, amended: for every non-empty list and every integer percentile \<open>0 \<le> p < 100\<close>,
  the index \<open>floor(N * p / 100)\<close> already lies in the valid range, so no clamping takes
  place, and \<open>percentile\<close> returns the element of the ascending sort at that index.
  For the sample \<open>[10, 20, 30, 40, 50]\<close>, P95 is 50 and P50 is 30.
\<close>

theorem percentile_nearest_rank:
  "(data \<noteq> [] \<and> 0 \<le> p \<and> p < 100 \<longrightarrow>
      0 \<le> spec_rank_index (length data) p \<and>
      spec_rank_index (length data) p < int (length data) \<and>
      percentile data p = Inr (sort data ! nat (spec_rank_index (length data) p))) \<and>
   percentile [10, 20, 30, 40, 50 :: rat] 95 = Inr 50 \<and>
   percentile [10, 20, 30, 40, 50 :: rat] 50 = Inr 30"
proof -
  have "percentile [10, 20, 30, 40, 50 :: rat] 95 = Inr 50"
    by (simp add: percentile_def py_getitem_def int_of_div_100_def)
  moreover have "percentile [10, 20, 30, 40, 50 :: rat] 50 = Inr 30"
    by (simp add: percentile_def py_getitem_def int_of_div_100_def)
  moreover have "data \<noteq> [] \<and> 0 \<le> p \<and> p < 100 \<longrightarrow>
      0 \<le> spec_rank_index (length data) p \<and>
      spec_rank_index (length data) p < int (length data) \<and>
      percentile data p = Inr (sort data ! nat (spec_rank_index (length data) p))"
    using rank_in_range[of "length data" p] percentile_in_range[of data p]
    by (simp add: spec_rank_index_div)
  ultimately show ?thesis by blast
qed

theorem percentile_nearest_rank_witness:
  "percentile [30, 10, 50, 20, 40 :: rat] 95 =
     Inr (sort [30, 10, 50, 20, 40 :: rat] ! nat (spec_rank_index 5 95)) \<and>
   nat (spec_rank_index 5 95) = 4"
  using percentile_nearest_rank[of "[30, 10, 50, 20, 40 :: rat]" 95]
  by (simp add: spec_rank_index_div)

section \<open>Reporting on no samples (C7)\<close>

text \<open>
  C7: on an empty collection of results the reporter returns normally with the explicit
  "no query results" output; no statistic is computed and no division takes place.
\<close>

theorem report_empty: "generate_performance_report [] = Inr NoQueryResults"
  by (simp add: generate_performance_report_def)

section \<open>The SLA verdicts (C6)\<close>

lemma pct_ge_95: "(95 \<le> x * 100) = (95 / 100 \<le> (x::rat))"
  by linarith

lemma fraction_19_of_20:
  "length ts = 20 \<Longrightarrow> length (filter (\<lambda>t. t < 100) ts) = 19 \<Longrightarrow> spec_fraction_under ts * 100 = 95"
  by (simp add: spec_fraction_under_def)

lemma distinct_singleton_set: "distinct xs \<Longrightarrow> set xs = {a} \<Longrightarrow> xs = [a]"
proof -
  assume d: "distinct xs" and s: "set xs = {a}"
  have "length xs = card (set xs)" using d by (simp add: distinct_card)
  then have "length xs = 1" using s by simp
  then obtain b where "xs = [b]" by (cases xs) auto
  with s show ?thesis by simp
qed

text \<open>
  C6 as it is written says that both verdicts are reported and that each is decided by the
  fraction of the collection's samples below 100 ms. Two runs show otherwise. A run
  whose only result failed is reported with no per-type verdict and no whole-run verdict.
  A run of one successful result of 40 ms and one failed result of 30000 ms, both of the
  query type recent_labs, has half of its samples below 100 ms, and is reported with
  100 percent under the threshold and both verdicts met: the failed result's duration is
  left out of the collection.
\<close>

theorem sla_verdict_counterexample:
  "generate_performance_report
     [\<lparr>query_name = ''recent_labs'', query_id = None, execution_time_ms = 30000,
        row_count = 0, timestamp = 1, success = False, error = Some ''timeout''\<rparr>]
   = Inr (Printed \<lparr>total_executed = 1, successful_count = 0, successful_pct = 0,
            failed_count = 1, per_query = [], overall = None\<rparr>) \<and>
   spec_fraction_under (map execution_time_ms
     [\<lparr>query_name = ''recent_labs'', query_id = None, execution_time_ms = 40,
        row_count = 3, timestamp = 0, success = True, error = None\<rparr>,
      \<lparr>query_name = ''recent_labs'', query_id = None, execution_time_ms = 30000,
        row_count = 0, timestamp = 1, success = False, error = Some ''timeout''\<rparr>]) = 1 / 2 \<and>
   generate_performance_report
     [\<lparr>query_name = ''recent_labs'', query_id = None, execution_time_ms = 40,
        row_count = 3, timestamp = 0, success = True, error = None\<rparr>,
      \<lparr>query_name = ''recent_labs'', query_id = None, execution_time_ms = 30000,
        row_count = 0, timestamp = 1, success = False, error = Some ''timeout''\<rparr>]
   = Inr (Printed \<lparr>total_executed = 2, successful_count = 1, successful_pct = 50,
            failed_count = 1,
            per_query = [\<lparr>tm_query_name = ''recent_labs'', tm_count = 1, tm_mean = 40,
                           tm_median = 40, tm_min = 40, tm_max = 40, tm_p95 = 40,
                           tm_p99 = 40, tm_pct_under_100ms = 100, tm_target_met = True\<rparr>],
            overall = Some \<lparr>om_mean = 40, om_median = 40, om_p95 = 40, om_p99 = 40,
                             om_under_100ms_pct = 100, om_sla_met = True\<rparr>\<rparr>)"
  by (simp add: generate_performance_report_def query_metrics_def overall_latency_def
      unique_def py_mean_def py_median_def py_min_def py_max_def percentile_def
      py_getitem_def int_of_div_100_def py_truediv_def spec_fraction_under_def Let_def)

text \<open>
  C6, amended: the report never raises. When no result of the run is successful it holds
  no verdict at all. When some result is successful it holds the whole-run verdict and
  exactly one per-type verdict for each query name that has a successful result, in the
  order of first appearance; each verdict is "met" exactly when the fraction of the
  successful samples of its collection strictly below 100 ms is at least 95 percent, and
  the reported percentage is that fraction times 100. A collection of 20 successful
  samples with 19 below 100 ms has the percentage 95.0 and meets the SLA, per type and
  for the whole run.
\<close>

theorem sla_verdicts_on_successful_samples:
  "\<exists>out. generate_performance_report qs = Inr out \<and>
     ((\<forall>r \<in> set qs. \<not> success r) \<longrightarrow>
        out = NoQueryResults \<or>
        (\<exists>rep. out = Printed rep \<and> per_query rep = [] \<and> overall rep = None)) \<and>
     ((\<exists>r \<in> set qs. success r) \<longrightarrow>
        (\<exists>rep ov. out = Printed rep \<and> overall rep = Some ov \<and>
           map tm_query_name (per_query rep) = unique (map query_name (filter success qs)) \<and>
           distinct (map tm_query_name (per_query rep)) \<and>
           set (map tm_query_name (per_query rep)) =
             {n. \<exists>r \<in> set qs. success r \<and> query_name r = n} \<and>
           (\<forall>m \<in> set (per_query rep).
              tm_pct_under_100ms m =
                spec_fraction_under (latency_samples qs (tm_query_name m)) * 100 \<and>
              tm_target_met m =
                (95 / 100 \<le> spec_fraction_under (latency_samples qs (tm_query_name m))) \<and>
              (length (latency_samples qs (tm_query_name m)) = 20 \<and>
               length (filter (\<lambda>t. t < 100) (latency_samples qs (tm_query_name m))) = 19 \<longrightarrow>
                 tm_pct_under_100ms m = 95 \<and> tm_target_met m)) \<and>
           om_under_100ms_pct ov =
             spec_fraction_under (map execution_time_ms (filter success qs)) * 100 \<and>
           om_sla_met ov =
             (95 / 100 \<le> spec_fraction_under (map execution_time_ms (filter success qs))) \<and>
           (length (filter success qs) = 20 \<and>
            length (filter (\<lambda>r. success r \<and> execution_time_ms r < 100) qs) = 19 \<longrightarrow>
              om_under_100ms_pct ov = 95 \<and> om_sla_met ov)))"
proof (cases "\<exists>r \<in> set qs. success r")
  case False
  then have nf: "filter success qs = []" by (auto simp: filter_empty_conv)
  show ?thesis
  proof (cases "qs = []")
    case True
    then show ?thesis by (simp add: generate_performance_report_def)
  next
    case ne: False
    from report_without_success[OF ne nf] False show ?thesis by simp
  qed
next
  case True
  define S where "S = filter success qs"
  have ne: "filter success qs \<noteq> []" using True by (auto simp: filter_empty_conv)
  from report_with_success[OF ne] obtain per ov where
    per: "query_metrics_loop S (unique (map query_name S)) = Inr per" and
    ov: "overall_latency (map execution_time_ms S) = Inr ov" and
    rep: "generate_performance_report qs =
       Inr (Printed \<lparr>total_executed = length qs, successful_count = length S,
              successful_pct = of_nat (length S) / of_nat (length qs) * 100,
              failed_count = length qs - length S, per_query = per, overall = Some ov\<rparr>)"
    unfolding S_def by blast
  have "set (unique (map query_name S)) \<subseteq> query_name ` set S" by (simp add: set_unique)
  from query_metrics_loop_ok[OF this] per have
    names: "map tm_query_name per = unique (map query_name S)" and
    each: "\<forall>m \<in> set per. query_metrics S (tm_query_name m) = Inr m" by auto
  have dist: "distinct (map tm_query_name per)" unfolding names by (rule distinct_unique)
  have nset: "set (map tm_query_name per) = {n. \<exists>r \<in> set qs. success r \<and> query_name r = n}"
    unfolding names set_unique by (auto simp: S_def)
  have verdict: "\<forall>m \<in> set per.
      tm_pct_under_100ms m =
        spec_fraction_under (latency_samples qs (tm_query_name m)) * 100 \<and>
      tm_target_met m =
        (95 / 100 \<le> spec_fraction_under (latency_samples qs (tm_query_name m))) \<and>
      (length (latency_samples qs (tm_query_name m)) = 20 \<and>
       length (filter (\<lambda>t. t < 100) (latency_samples qs (tm_query_name m))) = 19 \<longrightarrow>
         tm_pct_under_100ms m = 95 \<and> tm_target_met m)"
  proof
    fix m assume "m \<in> set per"
    with each have q: "query_metrics S (tm_query_name m) = Inr m" by blast
    have ls: "latency_samples qs (tm_query_name m) =
        map execution_time_ms (filter (\<lambda>r. query_name r = tm_query_name m) S)"
      by (simp only: latency_samples_def S_def)
    have a: "tm_pct_under_100ms m =
        spec_fraction_under (latency_samples qs (tm_query_name m)) * 100"
      unfolding ls by (rule query_metrics_fields(9)[OF q])
    have "tm_target_met m =
        (95 \<le> spec_fraction_under (latency_samples qs (tm_query_name m)) * 100)"
      unfolding ls by (rule query_metrics_fields(10)[OF q])
    then have b: "tm_target_met m =
        (95 / 100 \<le> spec_fraction_under (latency_samples qs (tm_query_name m)))"
      by (simp only: pct_ge_95)
    have c: "length (latency_samples qs (tm_query_name m)) = 20 \<and>
       length (filter (\<lambda>t. t < 100) (latency_samples qs (tm_query_name m))) = 19 \<longrightarrow>
         tm_pct_under_100ms m = 95 \<and> tm_target_met m"
    proof
      assume h: "length (latency_samples qs (tm_query_name m)) = 20 \<and>
       length (filter (\<lambda>t. t < 100) (latency_samples qs (tm_query_name m))) = 19"
      then have "spec_fraction_under (latency_samples qs (tm_query_name m)) * 100 = 95"
        using fraction_19_of_20 by blast
      then show "tm_pct_under_100ms m = 95 \<and> tm_target_met m"
        using a b by (simp add: pct_ge_95[symmetric])
    qed
    from a b c show "tm_pct_under_100ms m =
        spec_fraction_under (latency_samples qs (tm_query_name m)) * 100 \<and>
      tm_target_met m =
        (95 / 100 \<le> spec_fraction_under (latency_samples qs (tm_query_name m))) \<and>
      (length (latency_samples qs (tm_query_name m)) = 20 \<and>
       length (filter (\<lambda>t. t < 100) (latency_samples qs (tm_query_name m))) = 19 \<longrightarrow>
         tm_pct_under_100ms m = 95 \<and> tm_target_met m)" by blast
  qed
  have sne: "map execution_time_ms S \<noteq> []" using ne by (simp add: S_def)
  from overall_latency_value[OF sne] ov have
    ovv: "om_under_100ms_pct ov = spec_fraction_under (map execution_time_ms S) * 100"
         "om_sla_met ov = (95 \<le> spec_fraction_under (map execution_time_ms S) * 100)" by auto
  have ovm: "om_sla_met ov = (95 / 100 \<le> spec_fraction_under (map execution_time_ms S))"
    using ovv(2) by (simp only: pct_ge_95)
  have ex: "length S = 20 \<and> length (filter (\<lambda>r. success r \<and> execution_time_ms r < 100) qs) = 19
      \<longrightarrow> om_under_100ms_pct ov = 95 \<and> om_sla_met ov"
  proof
    assume a: "length S = 20 \<and> length (filter (\<lambda>r. success r \<and> execution_time_ms r < 100) qs) = 19"
    have "filter (\<lambda>t. t < 100) (map execution_time_ms S) =
          map execution_time_ms (filter (\<lambda>r. success r \<and> execution_time_ms r < 100) qs)"
      by (simp add: S_def filter_map comp_def conj_commute)
    then have "length (filter (\<lambda>t. t < 100) (map execution_time_ms S)) = 19" using a by simp
    moreover have "length (map execution_time_ms S) = 20" using a by simp
    ultimately have "spec_fraction_under (map execution_time_ms S) * 100 = 95"
      by (rule fraction_19_of_20[rotated])
    then show "om_under_100ms_pct ov = 95 \<and> om_sla_met ov" using ovv by simp
  qed
  define R where "R = \<lparr>total_executed = length qs, successful_count = length S,
              successful_pct = of_nat (length S) / of_nat (length qs) * 100,
              failed_count = length qs - length S, per_query = per, overall = Some ov\<rparr>"
  have pr: "per_query R = per" and orr: "overall R = Some ov" by (simp_all add: R_def)
  have rep': "generate_performance_report qs = Inr (Printed R)" using rep by (simp only: R_def)
  have notall: "\<not> (\<forall>r \<in> set qs. \<not> success r)" using True by blast
  have body: "\<exists>rep ov. Printed R = Printed rep \<and> overall rep = Some ov \<and>
           map tm_query_name (per_query rep) = unique (map query_name (filter success qs)) \<and>
           distinct (map tm_query_name (per_query rep)) \<and>
           set (map tm_query_name (per_query rep)) =
             {n. \<exists>r \<in> set qs. success r \<and> query_name r = n} \<and>
           (\<forall>m \<in> set (per_query rep).
              tm_pct_under_100ms m =
                spec_fraction_under (latency_samples qs (tm_query_name m)) * 100 \<and>
              tm_target_met m =
                (95 / 100 \<le> spec_fraction_under (latency_samples qs (tm_query_name m))) \<and>
              (length (latency_samples qs (tm_query_name m)) = 20 \<and>
               length (filter (\<lambda>t. t < 100) (latency_samples qs (tm_query_name m))) = 19 \<longrightarrow>
                 tm_pct_under_100ms m = 95 \<and> tm_target_met m)) \<and>
           om_under_100ms_pct ov =
             spec_fraction_under (map execution_time_ms (filter success qs)) * 100 \<and>
           om_sla_met ov =
             (95 / 100 \<le> spec_fraction_under (map execution_time_ms (filter success qs))) \<and>
           (length (filter success qs) = 20 \<and>
            length (filter (\<lambda>r. success r \<and> execution_time_ms r < 100) qs) = 19 \<longrightarrow>
              om_under_100ms_pct ov = 95 \<and> om_sla_met ov)"
    apply (intro exI[of _ R] exI[of _ ov] conjI)
            apply (rule refl)
           apply (rule orr)
          apply (simp only: pr names S_def)
         apply (simp only: pr dist)
        apply (simp only: pr nset)
       apply (simp only: pr)
       apply (rule verdict)
      apply (rule ovv(1)[unfolded S_def])
     apply (rule ovm[unfolded S_def])
    apply (rule ex[unfolded S_def])
    done
  show ?thesis
    apply (intro exI[of _ "Printed R"] conjI)
      apply (rule rep')
     apply (simp only: notall simp_thms)
    apply (rule impI)
    apply (rule body)
    done
qed

theorem sla_verdicts_on_successful_samples_witness:
  "\<exists>rep ov m. generate_performance_report
      (replicate 19 \<lparr>query_name = ''ed_census'', query_id = None, execution_time_ms = 50,
                      row_count = 1, timestamp = 0, success = True, error = None\<rparr> @
       [\<lparr>query_name = ''ed_census'', query_id = None, execution_time_ms = 500,
          row_count = 1, timestamp = 0, success = True, error = None\<rparr>,
        \<lparr>query_name = ''recent_labs'', query_id = None, execution_time_ms = 30000,
          row_count = 0, timestamp = 1, success = False, error = Some ''timeout''\<rparr>])
       = Inr (Printed rep) \<and>
     per_query rep = [m] \<and> tm_query_name m = ''ed_census'' \<and>
     tm_pct_under_100ms m = 95 \<and> tm_target_met m \<and>
     overall rep = Some ov \<and> om_under_100ms_pct ov = 95 \<and> om_sla_met ov"
proof -
  define fast where "fast = \<lparr>query_name = ''ed_census'', query_id = None, execution_time_ms = 50,
                      row_count = 1, timestamp = 0, success = True, error = None\<rparr>"
  define slow where "slow = \<lparr>query_name = ''ed_census'', query_id = None, execution_time_ms = 500,
          row_count = 1, timestamp = 0, success = True, error = None\<rparr>"
  define bad where "bad = \<lparr>query_name = ''recent_labs'', query_id = None,
          execution_time_ms = 30000, row_count = 0, timestamp = 1, success = False,
          error = Some ''timeout''\<rparr>"
  define qs where "qs = replicate 19 fast @ [slow, bad]"
  have h: "\<exists>r \<in> set qs. success r" by (simp add: qs_def slow_def)
  have n: "length (filter success qs) = 20" by (simp add: qs_def slow_def fast_def bad_def)
  have u: "length (filter (\<lambda>r. success r \<and> execution_time_ms r < 100) qs) = 19"
    by (simp add: qs_def slow_def fast_def bad_def)
  have names: "{n. \<exists>r \<in> set qs. success r \<and> query_name r = n} = {''ed_census''}"
    by (auto simp: qs_def slow_def fast_def bad_def)
  have ln: "length (latency_samples qs ''ed_census'') = 20"
    by (simp add: latency_samples_def qs_def slow_def fast_def bad_def)
  have lu: "length (filter (\<lambda>t. t < 100) (latency_samples qs ''ed_census'')) = 19"
    by (simp add: latency_samples_def qs_def slow_def fast_def bad_def)
  from sla_verdicts_on_successful_samples[of qs] h obtain rep ov where
    r: "generate_performance_report qs = Inr (Printed rep)" "overall rep = Some ov" and
    d: "distinct (map tm_query_name (per_query rep))" and
    s: "set (map tm_query_name (per_query rep)) =
          {n. \<exists>r \<in> set qs. success r \<and> query_name r = n}" and
    v: "\<forall>m \<in> set (per_query rep).
          (length (latency_samples qs (tm_query_name m)) = 20 \<and>
           length (filter (\<lambda>t. t < 100) (latency_samples qs (tm_query_name m))) = 19 \<longrightarrow>
             tm_pct_under_100ms m = 95 \<and> tm_target_met m)" and
    o: "length (filter success qs) = 20 \<and>
        length (filter (\<lambda>r. success r \<and> execution_time_ms r < 100) qs) = 19 \<longrightarrow>
          om_under_100ms_pct ov = 95 \<and> om_sla_met ov"
    by auto
  from distinct_singleton_set[OF d] s names have
    "map tm_query_name (per_query rep) = [''ed_census'']" by simp
  then obtain m where m: "per_query rep = [m]" "tm_query_name m = ''ed_census''" by auto
  from v m ln lu have pm: "tm_pct_under_100ms m = 95 \<and> tm_target_met m" by simp
  from o n u have po: "om_under_100ms_pct ov = 95 \<and> om_sla_met ov" by simp
  from r m pm po have "\<exists>rep ov m. generate_performance_report qs = Inr (Printed rep) \<and>
     per_query rep = [m] \<and> tm_query_name m = ''ed_census'' \<and>
     tm_pct_under_100ms m = 95 \<and> tm_target_met m \<and>
     overall rep = Some ov \<and> om_under_100ms_pct ov = 95 \<and> om_sla_met ov" by blast
  then show ?thesis unfolding qs_def fast_def slow_def bad_def .
qed

section \<open>Failed results and the statistics (C10)\<close>

text \<open>
  C10: for a non-empty collection, every latency statistic and SLA fraction of the
  report, per query name and overall, is the statistic of the successful results'
  execution times. Two collections with the same successful results therefore have the
  same statistics, whatever their failed results are; failed results only enter the
  total and the failed count.
\<close>

theorem statistics_over_successful_only:
  assumes "qs \<noteq> []" and "qs' \<noteq> []" and "filter success qs = filter success qs'"
  shows "\<exists>rep rep'.
     generate_performance_report qs = Inr (Printed rep) \<and>
     generate_performance_report qs' = Inr (Printed rep') \<and>
     per_query rep = per_query rep' \<and> overall rep = overall rep' \<and>
     total_executed rep = length qs \<and>
     failed_count rep = length (filter (\<lambda>r. \<not> success r) qs) \<and>
     (\<forall>m \<in> set (per_query rep).
        tm_count m = length (latency_samples qs (tm_query_name m)) \<and>
        py_mean (latency_samples qs (tm_query_name m)) = Inr (tm_mean m) \<and>
        py_median (latency_samples qs (tm_query_name m)) = Inr (tm_median m) \<and>
        py_min (latency_samples qs (tm_query_name m)) = Inr (tm_min m) \<and>
        py_max (latency_samples qs (tm_query_name m)) = Inr (tm_max m) \<and>
        percentile (latency_samples qs (tm_query_name m)) 95 = Inr (tm_p95 m) \<and>
        percentile (latency_samples qs (tm_query_name m)) 99 = Inr (tm_p99 m) \<and>
        tm_pct_under_100ms m =
          spec_fraction_under (latency_samples qs (tm_query_name m)) * 100) \<and>
     (\<forall>ov. overall rep = Some ov \<longrightarrow>
        py_mean (map execution_time_ms (filter success qs)) = Inr (om_mean ov) \<and>
        py_median (map execution_time_ms (filter success qs)) = Inr (om_median ov) \<and>
        percentile (map execution_time_ms (filter success qs)) 95 = Inr (om_p95 ov) \<and>
        percentile (map execution_time_ms (filter success qs)) 99 = Inr (om_p99 ov) \<and>
        om_under_100ms_pct ov =
          spec_fraction_under (map execution_time_ms (filter success qs)) * 100)"
proof (cases "filter success qs = []")
  case True
  have f: "length (filter (\<lambda>r. \<not> success r) qs) = length qs"
    using True by (simp add: filter_empty_conv)
  have "generate_performance_report qs =
       Inr (Printed \<lparr>total_executed = length qs, successful_count = 0,
              successful_pct = 0, failed_count = length qs, per_query = [], overall = None\<rparr>)"
    using report_without_success[OF assms(1) True] .
  moreover have "generate_performance_report qs' =
       Inr (Printed \<lparr>total_executed = length qs', successful_count = 0,
              successful_pct = 0, failed_count = length qs', per_query = [], overall = None\<rparr>)"
    using report_without_success[OF assms(2)] True assms(3) by simp
  ultimately show ?thesis using f by simp
next
  case False
  define S where "S = filter success qs"
  have S': "filter success qs' = S" using assms(3) by (simp add: S_def)
  have ne: "S \<noteq> []" using False by (simp add: S_def)
  from report_with_success[of qs] ne obtain per ov where
    per: "query_metrics_loop S (unique (map query_name S)) = Inr per" and
    ov: "overall_latency (map execution_time_ms S) = Inr ov" and
    rep: "generate_performance_report qs =
       Inr (Printed \<lparr>total_executed = length qs, successful_count = length S,
              successful_pct = of_nat (length S) / of_nat (length qs) * 100,
              failed_count = length qs - length S, per_query = per, overall = Some ov\<rparr>)"
    unfolding S_def by blast
  from report_with_success[of qs'] ne obtain per' ov' where
    per': "query_metrics_loop S (unique (map query_name S)) = Inr per'" and
    ov': "overall_latency (map execution_time_ms S) = Inr ov'" and
    rep': "generate_performance_report qs' =
       Inr (Printed \<lparr>total_executed = length qs', successful_count = length S,
              successful_pct = of_nat (length S) / of_nat (length qs') * 100,
              failed_count = length qs' - length S, per_query = per', overall = Some ov'\<rparr>)"
    unfolding S' by blast
  have same: "per' = per" "ov' = ov" using per per' ov ov' by simp_all
  have failed: "length qs - length S = length (filter (\<lambda>r. \<not> success r) qs)"
    using sum_length_filter_compl[of success qs] by (simp add: S_def)
  have "set (unique (map query_name S)) \<subseteq> query_name ` set S" by (simp add: set_unique)
  from query_metrics_loop_ok[OF this] per have
    each: "\<forall>m \<in> set per. query_metrics S (tm_query_name m) = Inr m" by auto
  have pt: "\<forall>m \<in> set per.
        tm_count m = length (latency_samples qs (tm_query_name m)) \<and>
        py_mean (latency_samples qs (tm_query_name m)) = Inr (tm_mean m) \<and>
        py_median (latency_samples qs (tm_query_name m)) = Inr (tm_median m) \<and>
        py_min (latency_samples qs (tm_query_name m)) = Inr (tm_min m) \<and>
        py_max (latency_samples qs (tm_query_name m)) = Inr (tm_max m) \<and>
        percentile (latency_samples qs (tm_query_name m)) 95 = Inr (tm_p95 m) \<and>
        percentile (latency_samples qs (tm_query_name m)) 99 = Inr (tm_p99 m) \<and>
        tm_pct_under_100ms m =
          spec_fraction_under (latency_samples qs (tm_query_name m)) * 100"
  proof
    fix m assume "m \<in> set per"
    with each have q: "query_metrics S (tm_query_name m) = Inr m" by blast
    have ls: "latency_samples qs (tm_query_name m) =
        map execution_time_ms (filter (\<lambda>r. query_name r = tm_query_name m) S)"
      by (simp only: latency_samples_def S_def)
    show "tm_count m = length (latency_samples qs (tm_query_name m)) \<and>
        py_mean (latency_samples qs (tm_query_name m)) = Inr (tm_mean m) \<and>
        py_median (latency_samples qs (tm_query_name m)) = Inr (tm_median m) \<and>
        py_min (latency_samples qs (tm_query_name m)) = Inr (tm_min m) \<and>
        py_max (latency_samples qs (tm_query_name m)) = Inr (tm_max m) \<and>
        percentile (latency_samples qs (tm_query_name m)) 95 = Inr (tm_p95 m) \<and>
        percentile (latency_samples qs (tm_query_name m)) 99 = Inr (tm_p99 m) \<and>
        tm_pct_under_100ms m =
          spec_fraction_under (latency_samples qs (tm_query_name m)) * 100"
      unfolding ls using query_metrics_fields(2-9)[OF q] by blast
  qed
  have sne: "map execution_time_ms S \<noteq> []" using ne by simp
  from overall_latency_value[OF sne] ov have
    ovv: "py_mean (map execution_time_ms S) = Inr (om_mean ov)"
      "py_median (map execution_time_ms S) = Inr (om_median ov)"
      "percentile (map execution_time_ms S) 95 = Inr (om_p95 ov)"
      "percentile (map execution_time_ms S) 99 = Inr (om_p99 ov)"
      "om_under_100ms_pct ov = spec_fraction_under (map execution_time_ms S) * 100"
    by auto
  show ?thesis
    unfolding rep rep' same S_def[symmetric]
    using pt ovv failed by simp
qed

theorem statistics_over_successful_only_witness:
  "\<exists>rep rep'.
     generate_performance_report
       [\<lparr>query_name = ''recent_labs'', query_id = None, execution_time_ms = 40,
          row_count = 3, timestamp = 0, success = True, error = None\<rparr>,
        \<lparr>query_name = ''recent_labs'', query_id = None, execution_time_ms = 30000,
          row_count = 0, timestamp = 1, success = False, error = Some ''timeout''\<rparr>]
       = Inr (Printed rep) \<and>
     generate_performance_report
       [\<lparr>query_name = ''recent_labs'', query_id = None, execution_time_ms = 40,
          row_count = 3, timestamp = 0, success = True, error = None\<rparr>]
       = Inr (Printed rep') \<and>
     per_query rep = per_query rep' \<and> overall rep = overall rep' \<and>
     total_executed rep = 2 \<and> failed_count rep = 1"
proof -
  define ok where "ok = \<lparr>query_name = ''recent_labs'', query_id = None, execution_time_ms = 40,
          row_count = 3, timestamp = 0, success = True, error = None\<rparr>"
  define bad where "bad = \<lparr>query_name = ''recent_labs'', query_id = None,
          execution_time_ms = 30000, row_count = 0, timestamp = 1, success = False,
          error = Some ''timeout''\<rparr>"
  have h1: "[ok, bad] \<noteq> []" and h2: "[ok] \<noteq> []" by simp_all
  have h3: "filter success [ok, bad] = filter success [ok]" by (simp add: ok_def bad_def)
  have c: "length [ok, bad] = 2" "length (filter (\<lambda>r. \<not> success r) [ok, bad]) = 1"
    by (simp_all add: ok_def bad_def)
  from statistics_over_successful_only[OF h1 h2 h3] have
    "\<exists>rep rep'.
     generate_performance_report [ok, bad] = Inr (Printed rep) \<and>
     generate_performance_report [ok] = Inr (Printed rep') \<and>
     per_query rep = per_query rep' \<and> overall rep = overall rep' \<and>
     total_executed rep = 2 \<and> failed_count rep = 1"
    unfolding c by blast
  then show ?thesis by (simp only: ok_def bad_def)
qed


section \<open>Facts about rounding\<close>

lemma py_round2_nonneg: assumes "0 \<le> x" shows "0 \<le> py_round2 x"
proof -
  have "0 \<le> x * 100" using assms by simp
  then have f: "0 \<le> \<lfloor>x * 100\<rfloor>" by simp
  then have "(0::rat) \<le> of_int \<lfloor>x * 100\<rfloor>" and "(0::rat) \<le> of_int (\<lfloor>x * 100\<rfloor> + 1)" by simp_all
  then show ?thesis unfolding py_round2_def Let_def by (simp del: of_int_add)
qed

lemma py_round2_close: "\<bar>py_round2 x - x\<bar> \<le> 1 / 200"
proof -
  define f where "f = \<lfloor>x * 100\<rfloor>"
  define r where "r = x * 100 - of_int f"
  have r: "0 \<le> r" "r < 1" unfolding r_def f_def by linarith+
  have p: "py_round2 x = (if r < 1 / 2 then of_int f
          else if 1 / 2 < r then of_int (f + 1)
          else if even f then of_int f else of_int (f + 1)) / 100"
    unfolding py_round2_def Let_def r_def f_def by simp
  have down: "\<bar>py_round2 x - x\<bar> \<le> 1 / 200"
    if "py_round2 x = of_int f / 100" "r \<le> 1 / 2"
  proof -
    have "(py_round2 x - x) * 100 = - r" unfolding that(1) r_def by (simp add: algebra_simps)
    then have "py_round2 x - x = - r / 100" by simp
    then show ?thesis using r that(2) by (simp add: abs_if)
  qed
  have up: "\<bar>py_round2 x - x\<bar> \<le> 1 / 200"
    if "py_round2 x = (of_int f + 1) / 100" "1 / 2 \<le> r"
  proof -
    have "(py_round2 x - x) * 100 = 1 - r" unfolding that(1) r_def by (simp add: algebra_simps)
    then have "py_round2 x - x = (1 - r) / 100" by simp
    then show ?thesis using r that(2) by (simp add: abs_if)
  qed
  show ?thesis
  proof (cases "r < 1 / 2")
    case True
    then show ?thesis using down by (simp add: p)
  next
    case False
    show ?thesis
    proof (cases "1 / 2 < r")
      case True
      then show ?thesis using up False by (simp add: p)
    next
      case nt: False
      with False have h: "r = 1 / 2" by simp
      show ?thesis
      proof (cases "even f")
        case True
        then show ?thesis using down h by (simp add: p)
      next
        case False
        then show ?thesis using up h by (simp add: p)
      qed
    qed
  qed
qed

lemma round_half_even_nonneg: assumes "0 \<le> y" shows "0 \<le> round_half_even y"
proof -
  have "0 \<le> \<lfloor>y\<rfloor>" using assms by simp
  then show ?thesis unfolding round_half_even_def Let_def by simp
qed

lemma pow2_pos: "0 < pow2 e"
  by (simp add: pow2_def)

lemma fl_nonneg: assumes "0 \<le> x" shows "0 \<le> fl x"
proof (cases "x = 0")
  case True
  then show ?thesis by (simp add: fl_def)
next
  case False
  define e where "e = binary_exponent \<bar>x\<bar> - 52"
  have "0 \<le> x / pow2 e" using assms pow2_pos[of e] by simp
  then have "0 \<le> round_half_even (x / pow2 e)" by (rule round_half_even_nonneg)
  then have "(0::rat) \<le> of_int (round_half_even (x / pow2 e)) * pow2 e"
    using pow2_pos[of e] by simp
  then show ?thesis using False by (simp add: fl_def Let_def e_def)
qed

lemma measured_duration_nonneg:
  assumes "a \<le> b"
  shows "0 \<le> float_round2 (float_mul (float_sub b a) 1000)"
proof -
  have "0 \<le> float_sub b a" unfolding float_sub_def using assms by (intro fl_nonneg) simp
  then have "0 \<le> float_mul (float_sub b a) 1000"
    unfolding float_mul_def by (intro fl_nonneg) simp
  then have "0 \<le> py_round2 (float_mul (float_sub b a) 1000)" by (rule py_round2_nonneg)
  then show ?thesis unfolding float_round2_def by (rule fl_nonneg)
qed

section \<open>Query failures are captured (C3)\<close>

lemma execute_query_value:
  assumes "connection self"
  shows "execute_query self name query_sql params call = Inr (result_of name call)"
  using assms
  by (simp add: execute_query_def result_of_def Let_def split: sum.splits prod.splits)

lemma execute_query_not_connected:
  "\<not> connection self \<Longrightarrow> \<exists>e. execute_query self name query_sql params call = Inl e"
  by (simp add: execute_query_def)

lemma measured_duration_example:
  "float_round2 (float_mul (float_sub (fl (165 / 1000000)) 0) 1000) = fl (17 / 100)"
  by code_simp

text \<open>
  C3 as it is written takes the measured duration to be non-negative in every
  execution. The duration is the difference of two readings of \<open>time.time()\<close>, which
  follows the wall clock. In the call below the query raises and the clock is set back
  by 1/64 s between the two readings: the result has \<open>success = False\<close> and the
  message, and its \<open>execution_time_ms\<close> is the double nearest to -15.62.
\<close>

theorem duration_negative_counterexample:
  "\<not> isl (execute_query
       \<lparr>warehouse = ''CLINICAL_INTERACTIVE_WH'', connection = True, query_results = []\<rparr>
       ''ed_census'' ''SELECT 1'' None
       \<lparr>t_start = 1 / 64, outcome = Inl ''connection reset'', t_end = 0, now = 0\<rparr>) \<and>
   success (projr (execute_query
       \<lparr>warehouse = ''CLINICAL_INTERACTIVE_WH'', connection = True, query_results = []\<rparr>
       ''ed_census'' ''SELECT 1'' None
       \<lparr>t_start = 1 / 64, outcome = Inl ''connection reset'', t_end = 0, now = 0\<rparr>)) = False \<and>
   error (projr (execute_query
       \<lparr>warehouse = ''CLINICAL_INTERACTIVE_WH'', connection = True, query_results = []\<rparr>
       ''ed_census'' ''SELECT 1'' None
       \<lparr>t_start = 1 / 64, outcome = Inl ''connection reset'', t_end = 0, now = 0\<rparr>))
     = Some ''connection reset'' \<and>
   execution_time_ms (projr (execute_query
       \<lparr>warehouse = ''CLINICAL_INTERACTIVE_WH'', connection = True, query_results = []\<rparr>
       ''ed_census'' ''SELECT 1'' None
       \<lparr>t_start = 1 / 64, outcome = Inl ''connection reset'', t_end = 0, now = 0\<rparr>))
     = fl (- 1562 / 100) \<and>
   execution_time_ms (projr (execute_query
       \<lparr>warehouse = ''CLINICAL_INTERACTIVE_WH'', connection = True, query_results = []\<rparr>
       ''ed_census'' ''SELECT 1'' None
       \<lparr>t_start = 1 / 64, outcome = Inl ''connection reset'', t_end = 0, now = 0\<rparr>)) < 0"
proof -
  define self where "self = \<lparr>warehouse = ''CLINICAL_INTERACTIVE_WH'', connection = True,
      query_results = []\<rparr>"
  define call where "call = \<lparr>t_start = 1 / 64,
      outcome = Inl ''connection reset'' :: string + (row list \<times> string option),
      t_end = 0, now = 0\<rparr>"
  have c: "connection self" by (simp add: self_def)
  have d: "float_round2 (float_mul (float_sub 0 (1 / 64)) 1000) = fl (- 1562 / 100)"
    by code_simp
  have n: "fl (- 1562 / 100) < 0" by code_simp
  have "\<not> isl (execute_query self ''ed_census'' ''SELECT 1'' None call) \<and>
     success (projr (execute_query self ''ed_census'' ''SELECT 1'' None call)) = False \<and>
     error (projr (execute_query self ''ed_census'' ''SELECT 1'' None call))
       = Some ''connection reset'' \<and>
     execution_time_ms (projr (execute_query self ''ed_census'' ''SELECT 1'' None call))
       = fl (- 1562 / 100) \<and>
     execution_time_ms (projr (execute_query self ''ed_census'' ''SELECT 1'' None call)) < 0"
    unfolding execute_query_value[OF c] using d n by (simp add: result_of_def call_def)
  then show ?thesis unfolding self_def call_def .
qed

text \<open>
  C3, amended: once \<open>execute_query\<close> holds a cursor, it returns a result whatever the
  query call does. If the call raises, the result has \<open>success = False\<close>, the message of
  the caught exception as \<open>error\<close> and no rows; if the call succeeds, it has
  \<open>success = True\<close> and the number of fetched rows. In both cases
  \<open>execution_time_ms\<close> is the measured wall-clock duration: the difference of the two
  readings of \<open>time.time()\<close> around the call, times 1000, rounded to two decimals. It is
  non-negative whenever the second reading is not before the first.
\<close>

theorem execute_query_captures_failure:
  assumes "connection self"
  shows "\<exists>r. execute_query self name query_sql params call = Inr r \<and>
     query_name r = name \<and>
     execution_time_ms r =
       float_round2 (float_mul (float_sub (t_end call) (t_start call)) 1000) \<and>
     (t_start call \<le> t_end call \<longrightarrow> 0 \<le> execution_time_ms r) \<and>
     (\<forall>e. outcome call = Inl e \<longrightarrow> \<not> success r \<and> error r = Some e \<and> row_count r = 0) \<and>
     (\<forall>rows sfqid. outcome call = Inr (rows, sfqid) \<longrightarrow>
        success r \<and> error r = None \<and> row_count r = length rows)"
proof -
  have "t_start call \<le> t_end call \<longrightarrow>
      0 \<le> float_round2 (float_mul (float_sub (t_end call) (t_start call)) 1000)"
    by (simp add: measured_duration_nonneg)
  then show ?thesis unfolding execute_query_value[OF assms] by (auto simp: result_of_def)
qed

theorem execute_query_captures_failure_witness:
  "\<exists>r. execute_query \<lparr>warehouse = ''CLINICAL_INTERACTIVE_WH'', connection = True, query_results = []\<rparr>
          ''ed_census'' ''SELECT 1'' None
          \<lparr>t_start = 10, outcome = Inl ''connection reset'', t_end = 10 + 1 / 4, now = 11\<rparr> = Inr r \<and>
       \<not> success r \<and> error r = Some ''connection reset'' \<and> row_count r = 0 \<and>
       execution_time_ms r = 250"
proof -
  define self where "self = \<lparr>warehouse = ''CLINICAL_INTERACTIVE_WH'', connection = True, query_results = []\<rparr>"
  define call where "call = \<lparr>t_start = 10, outcome = Inl ''connection reset'' :: string + (row list \<times> string option),
       t_end = 10 + 1 / 4, now = 11\<rparr>"
  have h: "connection self" by (simp add: self_def)
  have o: "outcome call = Inl ''connection reset''" by (simp add: call_def)
  have "float_round2 (float_mul (float_sub (10 + 1 / 4) 10) 1000) = 250" by code_simp
  then have t: "float_round2 (float_mul (float_sub (t_end call) (t_start call)) 1000) = 250"
    by (simp add: call_def)
  from execute_query_captures_failure[OF h, of "''ed_census''" "''SELECT 1''" None call] o t
  have "\<exists>r. execute_query self ''ed_census'' ''SELECT 1'' None call = Inr r \<and>
       \<not> success r \<and> error r = Some ''connection reset'' \<and> row_count r = 0 \<and>
       execution_time_ms r = 250" by auto
  then show ?thesis unfolding self_def call_def .
qed

section \<open>A session and its total (C9)\<close>

lemma lookup_patient_queries:
  "\<exists>q. py_lookup dashboard_queries ''patient_summary'' = Inr q"
  "\<exists>q. py_lookup dashboard_queries ''recent_encounters'' = Inr q"
  "\<exists>q. py_lookup dashboard_queries ''recent_labs'' = Inr q"
  by (simp_all add: py_lookup_def dashboard_queries_def)

lemma dashboard_loop_value:
  assumes "connection self"
  shows "dashboard_loop self pid calls 0
          [''patient_summary'', ''recent_encounters'', ''recent_labs''] [] =
     Inr [result_of ''patient_summary'' (calls 0),
          result_of ''recent_encounters'' (calls 1),
          result_of ''recent_labs'' (calls 2)]"
proof -
  obtain q0 q1 q2 where q:
    "py_lookup dashboard_queries ''patient_summary'' = Inr q0"
    "py_lookup dashboard_queries ''recent_encounters'' = Inr q1"
    "py_lookup dashboard_queries ''recent_labs'' = Inr q2"
    using lookup_patient_queries by blast
  have e: "\<And>name sql params call. execute_query self name sql params call = Inr (result_of name call)"
    by (rule execute_query_value[OF assms])
  show ?thesis by (simp add: q e numeral_2_eq_2)
qed

lemma session_value:
  assumes "connection self"
  shows "simulate_single_dashboard_load self pid calls =
     Inr \<lparr>patient_id = pid,
          total_load_time_ms =
            float_round2 (py_sum
              [execution_time_ms (result_of ''patient_summary'' (calls 0)),
               execution_time_ms (result_of ''recent_encounters'' (calls 1)),
               execution_time_ms (result_of ''recent_labs'' (calls 2))]),
          session_query_results =
            [result_of ''patient_summary'' (calls 0),
             result_of ''recent_encounters'' (calls 1),
             result_of ''recent_labs'' (calls 2)]\<rparr>"
  unfolding simulate_single_dashboard_load_def dashboard_loop_value[OF assms]
  by (simp add: Let_def)

text \<open>
  C9, amended: a session returns its three query results in order, each with the
  measured duration of its attempt, a failed attempt included, and its
  \<open>total_load_time_ms\<close> is the float sum of their \<open>execution_time_ms\<close> rounded to two
  decimals: the double nearest to a multiple of a hundredth that lies within 0.005 of
  that sum. The session result has no failure flag of its own: a failed child shows
  only as \<open>success = False\<close> on that child in the list of query results.
\<close>

theorem session_total_is_rounded_sum:
  assumes "connection self"
  shows "\<exists>r. simulate_single_dashboard_load self pid calls = Inr r \<and>
     patient_id r = pid \<and>
     total_load_time_ms r =
       float_round2 (py_sum (map execution_time_ms (session_query_results r))) \<and>
     total_load_time_ms r =
       fl (py_round2 (py_sum (map execution_time_ms (session_query_results r)))) \<and>
     \<bar>py_round2 (py_sum (map execution_time_ms (session_query_results r)))
        - py_sum (map execution_time_ms (session_query_results r))\<bar> \<le> 1 / 200 \<and>
     map query_name (session_query_results r) =
       [''patient_summary'', ''recent_encounters'', ''recent_labs''] \<and>
     map execution_time_ms (session_query_results r) =
       map (\<lambda>k. float_round2 (float_mul (float_sub (t_end (calls k)) (t_start (calls k))) 1000))
         [0, 1, 2] \<and>
     map success (session_query_results r) =
       map (\<lambda>k. \<not> isl (outcome (calls k))) [0, 1, 2]"
proof -
  define R where "R = \<lparr>patient_id = pid,
          total_load_time_ms =
            float_round2 (py_sum
              [execution_time_ms (result_of ''patient_summary'' (calls 0)),
               execution_time_ms (result_of ''recent_encounters'' (calls 1)),
               execution_time_ms (result_of ''recent_labs'' (calls 2))]),
          session_query_results =
            [result_of ''patient_summary'' (calls 0),
             result_of ''recent_encounters'' (calls 1),
             result_of ''recent_labs'' (calls 2)]\<rparr>"
  have v: "simulate_single_dashboard_load self pid calls = Inr R"
    unfolding R_def by (rule session_value[OF assms])
  have p: "patient_id R = pid" by (simp add: R_def)
  have t: "total_load_time_ms R =
       float_round2 (py_sum (map execution_time_ms (session_query_results R)))"
    by (simp add: R_def)
  have t': "total_load_time_ms R =
       fl (py_round2 (py_sum (map execution_time_ms (session_query_results R))))"
    unfolding t by (simp only: float_round2_def)
  have c: "\<bar>py_round2 (py_sum (map execution_time_ms (session_query_results R)))
        - py_sum (map execution_time_ms (session_query_results R))\<bar> \<le> 1 / 200"
    by (rule py_round2_close)
  have n: "map query_name (session_query_results R) =
       [''patient_summary'', ''recent_encounters'', ''recent_labs'']"
    by (simp add: R_def result_of_def)
  have e: "map execution_time_ms (session_query_results R) =
       map (\<lambda>k. float_round2 (float_mul (float_sub (t_end (calls k)) (t_start (calls k))) 1000))
         [0, 1, 2]"
    by (simp add: R_def result_of_def)
  have s: "map success (session_query_results R) =
       map (\<lambda>k. \<not> isl (outcome (calls k))) [0, 1, 2]"
    by (simp add: R_def result_of_def)
  from v p t t' c n e s show ?thesis by (intro exI[of _ R] conjI)
qed

section \<open>A concurrent run (C4)\<close>

lemma mset_remove_nth:
  "j < length xs \<Longrightarrow> add_mset (xs ! j) (mset (take j xs @ drop (Suc j) xs)) = mset xs"
proof -
  assume "j < length xs"
  then have "xs = take j xs @ xs ! j # drop (Suc j) xs" by (rule id_take_nth_drop)
  then have "mset xs = mset (take j xs @ xs ! j # drop (Suc j) xs)" by simp
  then show ?thesis by simp
qed

lemma mset_draw_all:
  "length pool = n \<Longrightarrow> mset (draw_without_replacement choice n pool) = mset pool"
proof (induction n arbitrary: choice pool)
  case 0
  then show ?case by simp
next
  case (Suc n)
  then have ne: "pool \<noteq> []" by auto
  define j where "j = choice 0 mod length pool"
  have j: "j < length pool" using ne by (simp add: j_def)
  have len: "length (take j pool @ drop (Suc j) pool) = n" using Suc.prems j by simp
  have "mset (draw_without_replacement (\<lambda>i. choice (Suc i)) n (take j pool @ drop (Suc j) pool))
        = mset (take j pool @ drop (Suc j) pool)"
    by (rule Suc.IH[OF len])
  then show ?case using ne mset_remove_nth[OF j]
    by (simp add: Let_def j_def[symmetric])
qed

lemma collect_completed_all_ok:
  "collect_completed (map Inr rs) (all_results, self) =
     Inr (all_results @ rs,
          self\<lparr>query_results := query_results self @ concat (map session_query_results rs)\<rparr>)"
  by (induction rs arbitrary: all_results self) simp_all

lemma completed_sessions:
  assumes "\<forall>f \<in> set futures. \<not> isl f"
  shows "\<exists>rs. draw_without_replacement choice (length futures) futures = map Inr rs \<and>
              mset rs = mset (map projr futures)"
proof -
  define cs where "cs = draw_without_replacement choice (length futures) futures"
  have m: "mset cs = mset futures" unfolding cs_def by (rule mset_draw_all) simp
  then have "set cs = set futures" by (rule mset_eq_setD)
  with assms have "\<forall>f \<in> set cs. \<not> isl f" by simp
  then have "map Inr (map projr cs) = cs"
    by (induction cs) (auto simp: isl_def)
  moreover have "mset (map projr cs) = mset (map projr futures)" using m by (metis mset_map)
  ultimately show ?thesis unfolding cs_def by metis
qed

lemma session_facts:
  assumes "connection self"
  shows "\<not> isl (simulate_single_dashboard_load self pid calls)"
    "patient_id (projr (simulate_single_dashboard_load self pid calls)) = pid"
    "length (session_query_results (projr (simulate_single_dashboard_load self pid calls))) = 3"
  unfolding session_value[OF assms] by simp_all

lemma batch_futures:
  fixes env iteration batch
  assumes "connection self"
  defines "futures \<equiv> map (\<lambda>(k, pid). simulate_single_dashboard_load self pid (db_call env iteration k))
                           (enumerate 0 batch)"
  shows "\<forall>f \<in> set futures. \<not> isl f"
    "map patient_id (map projr futures) = batch"
    "\<forall>f \<in> set futures. length (session_query_results (projr f)) = 3"
    "length futures = length batch"
proof -
  show "\<forall>f \<in> set futures. \<not> isl f"
    unfolding futures_def using session_facts(1)[OF assms(1)] by auto
  show "\<forall>f \<in> set futures. length (session_query_results (projr f)) = 3"
    unfolding futures_def using session_facts(3)[OF assms(1)] by auto
  have "map patient_id (map projr futures) = map snd (enumerate 0 batch)"
    unfolding futures_def using session_facts(2)[OF assms(1)]
    by (simp add: case_prod_beta comp_def)
  then show "map patient_id (map projr futures) = batch" by simp
  show "length futures = length batch" by (simp add: futures_def)
qed

lemma run_iterations_value:
  assumes "connection self" and "1 \<le> W" and "\<forall>it \<in> set its. (it + 1) * W \<le> length ids"
  shows "\<exists>new. run_iterations env W ids its (all_results, self) =
           Inr (all_results @ new,
                self\<lparr>query_results := query_results self @ concat (map session_query_results new)\<rparr>) \<and>
         length new = W * length its \<and>
         (\<forall>r \<in> set new. length (session_query_results r) = 3) \<and>
         mset (map patient_id new) = mset (concat (map (\<lambda>it. take W (drop (it * W) ids)) its))"
  using assms
proof (induction its arbitrary: all_results self)
  case Nil
  then show ?case by simp
next
  case (Cons it its)
  define batch where "batch = take W (drop (it * W) ids)"
  define futures where "futures = map (\<lambda>(k, pid). simulate_single_dashboard_load self pid (db_call env it k))
                           (enumerate 0 batch)"
  have "(it + 1) * W \<le> length ids" using Cons.prems(3) by simp
  then have wle: "W \<le> length ids - it * W" by (simp add: algebra_simps)
  then have lb: "length batch = W" by (simp add: batch_def)
  note bf = batch_futures[OF Cons.prems(1), of env it batch, folded futures_def]
  from completed_sessions[OF bf(1), of "completion env it"] obtain rs where
    rs: "draw_without_replacement (completion env it) (length futures) futures = map Inr rs"
        "mset rs = mset (map projr futures)" by blast
  have rs1: "draw_without_replacement (completion env it) W futures = map Inr rs"
    using rs(1) bf(4) lb by simp
  have lrs: "length rs = W" using rs(2) bf(4) lb by (metis length_map size_mset)
  have three: "\<forall>r \<in> set rs. length (session_query_results r) = 3"
  proof -
    have "set rs = projr ` set futures" using rs(2) by (metis mset_eq_setD set_map)
    with bf(3) show ?thesis by auto
  qed
  have ids: "mset (map patient_id rs) = mset batch"
  proof -
    have "mset (map patient_id rs) = mset (map patient_id (map projr futures))"
      using rs(2) by (metis mset_map)
    with bf(2) show ?thesis by simp
  qed
  define self' where "self' = self\<lparr>query_results := query_results self @ concat (map session_query_results rs)\<rparr>"
  have c': "connection self'" using Cons.prems(1) by (simp add: self'_def)
  have rest: "\<forall>it \<in> set its. (it + 1) * W \<le> length ids" using Cons.prems(3) by simp
  from Cons.IH[OF c' Cons.prems(2) rest, of "all_results @ rs"] obtain new where
    new: "run_iterations env W ids its (all_results @ rs, self') =
           Inr ((all_results @ rs) @ new,
                self'\<lparr>query_results := query_results self' @ concat (map session_query_results new)\<rparr>)"
         "length new = W * length its"
         "\<forall>r \<in> set new. length (session_query_results r) = 3"
         "mset (map patient_id new) = mset (concat (map (\<lambda>it. take W (drop (it * W) ids)) its))"
    by blast
  have step: "run_iterations env W ids (it # its) (all_results, self) =
      run_iterations env W ids its (all_results @ rs, self')"
    using Cons.prems(2) wle
    by (simp add: Let_def batch_def[symmetric] futures_def[symmetric] rs1
          collect_completed_all_ok self'_def min_absorb2)
  have "run_iterations env W ids (it # its) (all_results, self) =
           Inr (all_results @ (rs @ new),
                self\<lparr>query_results := query_results self @ concat (map session_query_results (rs @ new))\<rparr>)"
    unfolding step new(1) by (simp add: self'_def)
  moreover have "length (rs @ new) = W * length (it # its)" using lrs new(2) by simp
  moreover have "\<forall>r \<in> set (rs @ new). length (session_query_results r) = 3"
    using three new(3) by auto
  moreover have "mset (map patient_id (rs @ new)) =
      mset (concat (map (\<lambda>it. take W (drop (it * W) ids)) (it # its)))"
    using ids new(4) by (simp add: batch_def)
  ultimately show ?case by blast
qed

lemma concat_batches:
  "concat (map (\<lambda>it. take W (drop (it * W) xs)) [0..<n]) = take (W * n) xs"
proof (induction n)
  case 0
  then show ?case by simp
next
  case (Suc n)
  have "concat (map (\<lambda>it. take W (drop (it * W) xs)) [0..<Suc n]) =
        concat (map (\<lambda>it. take W (drop (it * W) xs)) [0..<n]) @ take W (drop (n * W) xs)"
    by simp
  also have "\<dots> = take (W * n) xs @ take W (drop (W * n) xs)"
    by (simp only: Suc mult.commute)
  also have "\<dots> = take (W * n + W) xs" by (simp only: take_add)
  also have "W * n + W = W * Suc n" by simp
  finally show ?case .
qed

text \<open>
  C4, amended: for every width \<open>W \<ge> 1\<close> (or with no iteration at all) and every
  iteration count \<open>I\<close>, when the patient table yields at least \<open>W * I\<close> ids the run
  returns \<open>W * I\<close> session results, one for each of the first \<open>W * I\<close> patient ids,
  each with three query results, and the shared collection grows by exactly the query
  results of these sessions, \<open>W * I * 3\<close> records. The order in which the sessions of an
  iteration complete is arbitrary and does not matter.
\<close>

theorem concurrent_run_counts:
  assumes "1 \<le> W \<or> I = 0" and "W * I \<le> length (patients_table env)"
  shows "\<exists>results self'.
     simulate_concurrent_dashboards self W I env = Inr (results, self') \<and>
     length results = W * I \<and>
     (\<forall>r \<in> set results. length (session_query_results r) = 3) \<and>
     query_results self' = query_results self @ concat (map session_query_results results) \<and>
     length (query_results self') = length (query_results self) + W * I * 3 \<and>
     mset (map patient_id results) = mset (take (W * I) (patients_table env))"
proof (cases "I = 0")
  case True
  then show ?thesis by (simp add: simulate_concurrent_dashboards_def Let_def)
next
  case False
  with assms(1) have W: "1 \<le> W" by simp
  define self1 where "self1 = (if \<not> connection self then self\<lparr>connection := True\<rparr> else self)"
  define ids where "ids = get_sample_patient_ids (patients_table env) (W * I)"
  have c: "connection self1" by (simp add: self1_def)
  have q: "query_results self1 = query_results self" by (simp add: self1_def)
  have lids: "length ids = W * I" using assms(2) by (simp add: ids_def get_sample_patient_ids_def)
  have its: "\<forall>it \<in> set [0..<I]. (it + 1) * W \<le> length ids"
  proof
    fix it assume "it \<in> set [0..<I]"
    then have "it + 1 \<le> I" by simp
    then have "(it + 1) * W \<le> I * W" by (rule mult_le_mono1)
    then show "(it + 1) * W \<le> length ids" by (simp add: lids mult.commute)
  qed
  from run_iterations_value[OF c W its, of env "[]"] obtain new where
    new: "run_iterations env W ids [0..<I] ([], self1) =
           Inr ([] @ new,
                self1\<lparr>query_results := query_results self1 @ concat (map session_query_results new)\<rparr>)"
         "length new = W * length [0..<I]"
         "\<forall>r \<in> set new. length (session_query_results r) = 3"
         "mset (map patient_id new) = mset (concat (map (\<lambda>it. take W (drop (it * W) ids)) [0..<I]))"
    by blast
  have lq: "length (concat (map session_query_results new)) = W * I * 3"
  proof -
    have "map length (map session_query_results new) = replicate (length new) 3"
      using new(3) by (simp add: map_replicate_const[symmetric] cong: map_cong)
    then have "length (concat (map session_query_results new)) = sum_list (replicate (length new) 3)"
      by (simp only: length_concat)
    then show ?thesis using new(2) by (simp add: sum_list_replicate)
  qed
  have pid: "mset (map patient_id new) = mset (take (W * I) (patients_table env))"
    using new(4) lids by (simp add: concat_batches ids_def get_sample_patient_ids_def)
  have "simulate_concurrent_dashboards self W I env =
      Inr (new, self1\<lparr>query_results := query_results self1 @ concat (map session_query_results new)\<rparr>)"
    using new(1) by (simp add: simulate_concurrent_dashboards_def Let_def self1_def ids_def)
  then show ?thesis using new(2,3) lq pid q by simp
qed

text \<open>
  C4 as it is written covers every width. With width 0 and one iteration the patient
  table trivially yields the \<open>0\<close> ids asked for, but the worker pool cannot be created:
  the run raises \<open>ValueError\<close> and returns no result at all.
\<close>

theorem concurrent_run_width_zero_counterexample:
  "0 * 1 \<le> length (patients_table
       \<lparr>patients_table = [],
        db_call = (\<lambda>it k q. \<lparr>t_start = 0, outcome = Inr ([], None), t_end = 0, now = 0\<rparr>),
        completion = (\<lambda>it i. 0)\<rparr>) \<and>
   simulate_concurrent_dashboards
     \<lparr>warehouse = ''CLINICAL_INTERACTIVE_WH'', connection = True, query_results = []\<rparr> 0 1
     \<lparr>patients_table = [],
      db_call = (\<lambda>it k q. \<lparr>t_start = 0, outcome = Inr ([], None), t_end = 0, now = 0\<rparr>),
      completion = (\<lambda>it i. 0)\<rparr>
   = Inl (ValueError ''max_workers must be greater than 0'')"
  by (simp add: simulate_concurrent_dashboards_def get_sample_patient_ids_def)

theorem concurrent_run_counts_witness:
  "\<exists>results self'.
     simulate_concurrent_dashboards
       \<lparr>warehouse = ''CLINICAL_INTERACTIVE_WH'', connection = False, query_results = []\<rparr> 2 2
       \<lparr>patients_table = [''PAT-0000000A'', ''PAT-0000000B'', ''PAT-0000000C'',
                          ''PAT-0000000D'', ''PAT-0000000E''],
        db_call = (\<lambda>it k q. \<lparr>t_start = 0, outcome = Inr ([], None), t_end = 1 / 50, now = 0\<rparr>),
        completion = (\<lambda>it i. 1)\<rparr>
       = Inr (results, self') \<and>
     length results = 4 \<and> length (query_results self') = 12"
proof -
  define self where "self = \<lparr>warehouse = ''CLINICAL_INTERACTIVE_WH'', connection = False,
      query_results = []\<rparr>"
  define env where "env = \<lparr>patients_table = [''PAT-0000000A'', ''PAT-0000000B'', ''PAT-0000000C'',
                          ''PAT-0000000D'', ''PAT-0000000E''],
        db_call = (\<lambda>it k q. \<lparr>t_start = 0, outcome = Inr ([], None) :: string + (row list \<times> string option),
                                t_end = 1 / 50, now = 0\<rparr>),
        completion = (\<lambda>it i. 1)\<rparr>"
  have h1: "1 \<le> (2::nat) \<or> (2::nat) = 0" by simp
  have h2: "2 * 2 \<le> length (patients_table env)" by (simp add: env_def)
  have q: "query_results self = []" by (simp add: self_def)
  from concurrent_run_counts[OF h1 h2, of self] have
    "\<exists>results self'. simulate_concurrent_dashboards self 2 2 env = Inr (results, self') \<and>
       length results = 4 \<and> length (query_results self') = 12"
    unfolding q by auto
  then show ?thesis by (simp only: self_def env_def)
qed

text \<open>
  C9 as it is written takes the total to equal the sum of the children's durations and
  asks for a flag on the session result when a child query failed. The two sessions
  below have the same patient and the same clock readings, which give the durations
  0.01, 0.01 and 0.07 ms; in the second session the second query failed. In both, the
  total is 0.09 as a double, which is neither the float sum of the three durations
  (0.09000000000000001) nor their exact sum. The session result has the keys
  \<open>patient_id\<close>, \<open>total_load_time_ms\<close> and \<open>query_results\<close> and no other, and the
  first two are equal in the two sessions: nothing on the session itself records the
  failure, which shows only on the failed child.
\<close>

theorem session_total_and_flag_counterexample:
  "total_load_time_ms (projr (simulate_single_dashboard_load
       \<lparr>warehouse = ''CLINICAL_INTERACTIVE_WH'', connection = True, query_results = []\<rparr>
       ''PAT-0000000A''
       ((\<lambda>k. \<lparr>t_start = 0, outcome = Inr ([], None), t_end = fl (1 / 100000), now = 0\<rparr>)
          (2 := \<lparr>t_start = 0, outcome = Inr ([], None), t_end = fl (7 / 100000), now = 0\<rparr>))))
     \<noteq> sum_list (map execution_time_ms (session_query_results (projr
       (simulate_single_dashboard_load
       \<lparr>warehouse = ''CLINICAL_INTERACTIVE_WH'', connection = True, query_results = []\<rparr>
       ''PAT-0000000A''
       ((\<lambda>k. \<lparr>t_start = 0, outcome = Inr ([], None), t_end = fl (1 / 100000), now = 0\<rparr>)
          (2 := \<lparr>t_start = 0, outcome = Inr ([], None), t_end = fl (7 / 100000), now = 0\<rparr>)))))) \<and>
   total_load_time_ms (projr (simulate_single_dashboard_load
       \<lparr>warehouse = ''CLINICAL_INTERACTIVE_WH'', connection = True, query_results = []\<rparr>
       ''PAT-0000000A''
       ((\<lambda>k. \<lparr>t_start = 0, outcome = Inr ([], None), t_end = fl (1 / 100000), now = 0\<rparr>)
          (2 := \<lparr>t_start = 0, outcome = Inr ([], None), t_end = fl (7 / 100000), now = 0\<rparr>))))
     \<noteq> py_sum (map execution_time_ms (session_query_results (projr
       (simulate_single_dashboard_load
       \<lparr>warehouse = ''CLINICAL_INTERACTIVE_WH'', connection = True, query_results = []\<rparr>
       ''PAT-0000000A''
       ((\<lambda>k. \<lparr>t_start = 0, outcome = Inr ([], None), t_end = fl (1 / 100000), now = 0\<rparr>)
          (2 := \<lparr>t_start = 0, outcome = Inr ([], None), t_end = fl (7 / 100000), now = 0\<rparr>)))))) \<and>
   map execution_time_ms (session_query_results (projr (simulate_single_dashboard_load
       \<lparr>warehouse = ''CLINICAL_INTERACTIVE_WH'', connection = True, query_results = []\<rparr>
       ''PAT-0000000A''
       ((\<lambda>k. \<lparr>t_start = 0, outcome = Inr ([], None), t_end = fl (1 / 100000), now = 0\<rparr>)
          (2 := \<lparr>t_start = 0, outcome = Inr ([], None), t_end = fl (7 / 100000), now = 0\<rparr>)))))
     = [fl (1 / 100), fl (1 / 100), fl (7 / 100)] \<and>
   total_load_time_ms (projr (simulate_single_dashboard_load
       \<lparr>warehouse = ''CLINICAL_INTERACTIVE_WH'', connection = True, query_results = []\<rparr>
       ''PAT-0000000A''
       ((\<lambda>k. \<lparr>t_start = 0, outcome = Inr ([], None), t_end = fl (1 / 100000), now = 0\<rparr>)
          (2 := \<lparr>t_start = 0, outcome = Inr ([], None), t_end = fl (7 / 100000), now = 0\<rparr>))))
     = fl (9 / 100) \<and>
   map success (session_query_results (projr (simulate_single_dashboard_load
       \<lparr>warehouse = ''CLINICAL_INTERACTIVE_WH'', connection = True, query_results = []\<rparr>
       ''PAT-0000000A''
       ((\<lambda>k. \<lparr>t_start = 0, outcome = Inr ([], None), t_end = fl (1 / 100000), now = 0\<rparr>)
          (2 := \<lparr>t_start = 0, outcome = Inr ([], None), t_end = fl (7 / 100000), now = 0\<rparr>)))))
     = [True, True, True] \<and>
   map success (session_query_results (projr (simulate_single_dashboard_load
       \<lparr>warehouse = ''CLINICAL_INTERACTIVE_WH'', connection = True, query_results = []\<rparr>
       ''PAT-0000000A''
       ((\<lambda>k. \<lparr>t_start = 0, outcome = Inr ([], None), t_end = fl (1 / 100000), now = 0\<rparr>)
          (1 := \<lparr>t_start = 0, outcome = Inl ''timeout'', t_end = fl (1 / 100000), now = 0\<rparr>,
           2 := \<lparr>t_start = 0, outcome = Inr ([], None), t_end = fl (7 / 100000), now = 0\<rparr>)))))
     = [True, False, True] \<and>
   patient_id (projr (simulate_single_dashboard_load
       \<lparr>warehouse = ''CLINICAL_INTERACTIVE_WH'', connection = True, query_results = []\<rparr>
       ''PAT-0000000A''
       ((\<lambda>k. \<lparr>t_start = 0, outcome = Inr ([], None), t_end = fl (1 / 100000), now = 0\<rparr>)
          (1 := \<lparr>t_start = 0, outcome = Inl ''timeout'', t_end = fl (1 / 100000), now = 0\<rparr>,
           2 := \<lparr>t_start = 0, outcome = Inr ([], None), t_end = fl (7 / 100000), now = 0\<rparr>))))
     = patient_id (projr (simulate_single_dashboard_load
       \<lparr>warehouse = ''CLINICAL_INTERACTIVE_WH'', connection = True, query_results = []\<rparr>
       ''PAT-0000000A''
       ((\<lambda>k. \<lparr>t_start = 0, outcome = Inr ([], None), t_end = fl (1 / 100000), now = 0\<rparr>)
          (2 := \<lparr>t_start = 0, outcome = Inr ([], None), t_end = fl (7 / 100000), now = 0\<rparr>)))) \<and>
   total_load_time_ms (projr (simulate_single_dashboard_load
       \<lparr>warehouse = ''CLINICAL_INTERACTIVE_WH'', connection = True, query_results = []\<rparr>
       ''PAT-0000000A''
       ((\<lambda>k. \<lparr>t_start = 0, outcome = Inr ([], None), t_end = fl (1 / 100000), now = 0\<rparr>)
          (1 := \<lparr>t_start = 0, outcome = Inl ''timeout'', t_end = fl (1 / 100000), now = 0\<rparr>,
           2 := \<lparr>t_start = 0, outcome = Inr ([], None), t_end = fl (7 / 100000), now = 0\<rparr>))))
     = total_load_time_ms (projr (simulate_single_dashboard_load
       \<lparr>warehouse = ''CLINICAL_INTERACTIVE_WH'', connection = True, query_results = []\<rparr>
       ''PAT-0000000A''
       ((\<lambda>k. \<lparr>t_start = 0, outcome = Inr ([], None), t_end = fl (1 / 100000), now = 0\<rparr>)
          (2 := \<lparr>t_start = 0, outcome = Inr ([], None), t_end = fl (7 / 100000), now = 0\<rparr>)))) \<and>
   \<not> isl (simulate_single_dashboard_load
       \<lparr>warehouse = ''CLINICAL_INTERACTIVE_WH'', connection = True, query_results = []\<rparr>
       ''PAT-0000000A''
       ((\<lambda>k. \<lparr>t_start = 0, outcome = Inr ([], None), t_end = fl (1 / 100000), now = 0\<rparr>)
          (1 := \<lparr>t_start = 0, outcome = Inl ''timeout'', t_end = fl (1 / 100000), now = 0\<rparr>,
           2 := \<lparr>t_start = 0, outcome = Inr ([], None), t_end = fl (7 / 100000), now = 0\<rparr>)))"
proof -
  define self where "self = \<lparr>warehouse = ''CLINICAL_INTERACTIVE_WH'', connection = True,
      query_results = []\<rparr>"
  have c: "connection self" by (simp add: self_def)
  have d1: "float_round2 (float_mul (float_sub (fl (1 / 100000)) 0) 1000) = fl (1 / 100)"
    by code_simp
  have d7: "float_round2 (float_mul (float_sub (fl (7 / 100000)) 0) 1000) = fl (7 / 100)"
    by code_simp
  have t: "float_round2 (py_sum [fl (1 / 100), fl (1 / 100), fl (7 / 100)]) = fl (9 / 100)"
    by code_simp
  have n1: "fl (9 / 100) \<noteq> fl (1 / 100) + (fl (1 / 100) + fl (7 / 100))" by code_simp
  have n2: "fl (9 / 100) \<noteq> py_sum [fl (1 / 100), fl (1 / 100), fl (7 / 100)]" by code_simp
  show ?thesis
    unfolding self_def[symmetric] session_value[OF c]
    using n1 n2 by (simp add: result_of_def d1 d7 t)
qed

theorem session_total_is_rounded_sum_witness:
  "\<exists>r. simulate_single_dashboard_load
       \<lparr>warehouse = ''CLINICAL_INTERACTIVE_WH'', connection = True, query_results = []\<rparr>
       ''PAT-0000000A''
       ((\<lambda>k. \<lparr>t_start = 0, outcome = Inr ([], None), t_end = 1 / 4, now = 0\<rparr>)
          (1 := \<lparr>t_start = 0, outcome = Inl ''timeout'', t_end = 30, now = 0\<rparr>)) = Inr r \<and>
     map success (session_query_results r) = [True, False, True] \<and>
     map execution_time_ms (session_query_results r) = [250, 30000, 250] \<and>
     total_load_time_ms r = 30500"
proof -
  define self where "self = \<lparr>warehouse = ''CLINICAL_INTERACTIVE_WH'', connection = True,
      query_results = []\<rparr>"
  define calls where "calls = (\<lambda>k::nat. \<lparr>t_start = 0, outcome = Inr ([], None) :: string + (row list \<times> string option), t_end = 1 / 4, now = 0\<rparr>)
          (1 := \<lparr>t_start = 0, outcome = Inl ''timeout'', t_end = 30, now = 0\<rparr>)"
  have c: "connection self" by (simp add: self_def)
  have t: "float_round2 (float_mul (float_sub (1 / 4) 0) 1000) = 250"
    "float_round2 (float_mul (float_sub 30 0) 1000) = 30000"
    by code_simp+
  have s: "float_round2 (py_sum [250, 30000, 250]) = 30500" by code_simp
  from session_total_is_rounded_sum[OF c, of "''PAT-0000000A''" calls] obtain r where
    r: "simulate_single_dashboard_load self ''PAT-0000000A'' calls = Inr r"
     "total_load_time_ms r =
        float_round2 (py_sum (map execution_time_ms (session_query_results r)))"
     "map execution_time_ms (session_query_results r) =
       map (\<lambda>k. float_round2 (float_mul (float_sub (t_end (calls k)) (t_start (calls k))) 1000))
         [0, 1, 2]"
     "map success (session_query_results r) =
       map (\<lambda>k. \<not> isl (outcome (calls k))) [0, 1, 2]" by blast
  have e: "map execution_time_ms (session_query_results r) = [250, 30000, 250]"
    unfolding r(3) using t by (simp add: calls_def)
  have f: "map success (session_query_results r) = [True, False, True]"
    unfolding r(4) by (simp add: calls_def)
  have "total_load_time_ms r = 30500" unfolding r(2) e by (rule s)
  with r(1) e f have "\<exists>r. simulate_single_dashboard_load self ''PAT-0000000A'' calls = Inr r \<and>
     map success (session_query_results r) = [True, False, True] \<and>
     map execution_time_ms (session_query_results r) = [250, 30000, 250] \<and>
     total_load_time_ms r = 30500" by (intro exI[of _ r] conjI)
  then show ?thesis unfolding self_def calls_def .
qed


section \<open>Facts about the generator's draws\<close>

lemma length_draw:
  "length (draw_without_replacement choice n pool) = min n (length pool)"
proof (induction n arbitrary: choice pool)
  case 0
  then show ?case by simp
next
  case (Suc n)
  show ?case
  proof (cases "pool = []")
    case True
    then show ?thesis by simp
  next
    case False
    then have j: "choice 0 mod length pool < length pool" by simp
    then have "length (take (choice 0 mod length pool) pool @ drop (Suc (choice 0 mod length pool)) pool)
        = length pool - 1" by simp
    moreover have "0 < length pool" using False by simp
    ultimately have "length (draw_without_replacement (\<lambda>i. choice (Suc i)) n
        (take (choice 0 mod length pool) pool @ drop (Suc (choice 0 mod length pool)) pool))
        = min n (length pool - 1)" by (simp only: Suc.IH)
    moreover have "Suc (min n (length pool - 1)) = min (Suc n) (length pool)"
      using \<open>0 < length pool\<close> by arith
    ultimately show ?thesis using False by (simp add: Let_def)
  qed
qed

lemma set_remove_nth_subset: "set (take j xs @ drop (Suc j) xs) \<subseteq> set xs"
  using set_take_subset[of j xs] set_drop_subset[of "Suc j" xs] by auto

lemma distinct_remove_nth:
  assumes "distinct xs" "j < length xs"
  shows "distinct (take j xs @ drop (Suc j) xs)" "xs ! j \<notin> set (take j xs @ drop (Suc j) xs)"
proof -
  have "xs = take j xs @ xs ! j # drop (Suc j) xs" using assms(2) by (rule id_take_nth_drop)
  then have "distinct (take j xs @ xs ! j # drop (Suc j) xs)" using assms(1) by simp
  then show "distinct (take j xs @ drop (Suc j) xs)"
    "xs ! j \<notin> set (take j xs @ drop (Suc j) xs)" by auto
qed

lemma set_draw: "set (draw_without_replacement choice n pool) \<subseteq> set pool"
proof (induction n arbitrary: choice pool)
  case 0
  then show ?case by simp
next
  case (Suc n)
  show ?case
  proof (cases "pool = []")
    case True
    then show ?thesis by simp
  next
    case False
    define j where "j = choice 0 mod length pool"
    have j: "j < length pool" using False by (simp add: j_def)
    have "set (draw_without_replacement (\<lambda>i. choice (Suc i)) n (take j pool @ drop (Suc j) pool))
          \<subseteq> set pool"
      using Suc.IH[of "\<lambda>i. choice (Suc i)" "take j pool @ drop (Suc j) pool"]
        set_remove_nth_subset[of j pool] by blast
    then show ?thesis using False j by (simp add: Let_def j_def[symmetric])
  qed
qed

lemma distinct_draw:
  "distinct pool \<Longrightarrow> distinct (draw_without_replacement choice n pool)"
proof (induction n arbitrary: choice pool)
  case 0
  then show ?case by simp
next
  case (Suc n)
  show ?case
  proof (cases "pool = []")
    case True
    then show ?thesis by simp
  next
    case False
    define j where "j = choice 0 mod length pool"
    have j: "j < length pool" using False by (simp add: j_def)
    note d = distinct_remove_nth[OF Suc.prems j]
    have "distinct (draw_without_replacement (\<lambda>i. choice (Suc i)) n (take j pool @ drop (Suc j) pool))"
      by (rule Suc.IH[OF d(1)])
    moreover have "pool ! j \<notin> set (draw_without_replacement (\<lambda>i. choice (Suc i)) n
        (take j pool @ drop (Suc j) pool))"
      using set_draw[of "\<lambda>i. choice (Suc i)" n "take j pool @ drop (Suc j) pool"] d(2) by blast
    ultimately show ?thesis using False by (simp add: Let_def j_def[symmetric])
  qed
qed

lemma lab_test_codes:
  "map fst lab_tests = [''HBA1C'', ''GLUCOSE'', ''WBC'', ''HEMOGLOBIN'', ''CREATININE'', ''ALT'',
      ''CHOLESTEROL'', ''TROPONIN'']"
  "length lab_tests = 8"
  "distinct (map fst lab_tests)"
  by (simp_all add: lab_tests_def)

lemma py_lookup_key: "k \<in> set (map fst d) \<Longrightarrow> \<exists>v. py_lookup d k = Inr v"
proof -
  assume "k \<in> set (map fst d)"
  then have "map_of d k \<noteq> None" by (simp add: map_of_eq_None_iff)
  then show ?thesis by (auto simp: py_lookup_def)
qed

lemma randint_bounds:
  assumes "a \<le> b" and "random_randint a b s = (v, s')"
  shows "a \<le> v" "v \<le> b"
proof -
  have v: "v = a + int (py_random s 0 mod nat (b - a + 1))"
    using assms(2) by (simp add: random_randint_def random_next_def)
  show "a \<le> v" by (simp add: v)
  have "0 < nat (b - a + 1)" using assms(1) by simp
  then have "py_random s 0 mod nat (b - a + 1) < nat (b - a + 1)" by (rule mod_less_divisor)
  then have "int (py_random s 0 mod nat (b - a + 1)) < b - a + 1" using assms(1) by linarith
  then show "v \<le> b" by (simp add: v)
qed

section \<open>Lab results of one encounter (C8)\<close>

lemma timedelta_nonneg:
  "0 \<le> h \<Longrightarrow> 0 \<le> timedelta_hours h" "0 \<le> d \<Longrightarrow> 0 \<le> timedelta_days d"
  by (simp_all add: timedelta_hours_def timedelta_days_def)

lemma new_lab_result_shape:
  assumes "new_lab_result e code s = Inr (l, s')"
  shows "\<exists>t1 h1 t2 h2 t3.
      random_randint 0 12 t1 = (h1, t2) \<and> random_randint 1 48 t2 = (h2, t3) \<and>
      L_TEST_DATE l = E_ENCOUNTER_DATE e + timedelta_hours h1 \<and>
      L_RESULT_DATE l = L_TEST_DATE l + timedelta_hours h2 \<and>
      L_TEST_CODE l = code \<and> L_ENCOUNTER_ID l = E_ENCOUNTER_ID e \<and>
      L_PATIENT_ID l = E_PATIENT_ID e"
  using assms unfolding new_lab_result_def Let_def raise_bind_def
  by (auto split: sum.splits prod.splits if_splits) blast+

lemma new_lab_result_facts:
  assumes "new_lab_result e code s = Inr (l, s')"
  shows "L_TEST_CODE l = code" "L_ENCOUNTER_ID l = E_ENCOUNTER_ID e"
    "L_PATIENT_ID l = E_PATIENT_ID e" "E_ENCOUNTER_DATE e \<le> L_TEST_DATE l"
    "L_TEST_DATE l \<le> L_RESULT_DATE l"
proof -
  from new_lab_result_shape[OF assms] obtain t1 h1 t2 h2 t3 where
    r: "random_randint 0 12 t1 = (h1, t2)" "random_randint 1 48 t2 = (h2, t3)" and
    d: "L_TEST_DATE l = E_ENCOUNTER_DATE e + timedelta_hours h1"
       "L_RESULT_DATE l = L_TEST_DATE l + timedelta_hours h2" and
    i: "L_TEST_CODE l = code" "L_ENCOUNTER_ID l = E_ENCOUNTER_ID e"
       "L_PATIENT_ID l = E_PATIENT_ID e" by blast
  show "L_TEST_CODE l = code" "L_ENCOUNTER_ID l = E_ENCOUNTER_ID e"
    "L_PATIENT_ID l = E_PATIENT_ID e" using i by simp_all
  have "0 \<le> h1" using randint_bounds(1)[OF _ r(1)] by simp
  then show "E_ENCOUNTER_DATE e \<le> L_TEST_DATE l" using d(1) timedelta_nonneg(1)[of h1] by simp
  have "1 \<le> h2" using randint_bounds(1)[OF _ r(2)] by simp
  then show "L_TEST_DATE l \<le> L_RESULT_DATE l" using d(2) timedelta_nonneg(1)[of h2] by simp
qed

lemma new_lab_result_total:
  assumes "code \<in> set (map fst lab_tests)"
  shows "\<exists>l s'. new_lab_result e code s = Inr (l, s')"
proof -
  from py_lookup_key[OF assms] obtain info where "py_lookup lab_tests code = Inr info" by blast
  then show ?thesis
    unfolding new_lab_result_def Let_def by (simp split: prod.splits)
qed

lemma selected_tests_loop_facts:
  "selected_tests_loop e codes s = Inr (ls, s') \<Longrightarrow>
     map L_TEST_CODE ls = codes \<and>
     (\<forall>l \<in> set ls. L_ENCOUNTER_ID l = E_ENCOUNTER_ID e \<and> L_PATIENT_ID l = E_PATIENT_ID e \<and>
        E_ENCOUNTER_DATE e \<le> L_TEST_DATE l \<and> L_TEST_DATE l \<le> L_RESULT_DATE l)"
proof (induction codes arbitrary: s ls)
  case Nil
  then show ?case by simp
next
  case (Cons code codes)
  from Cons.prems obtain l s1 rest where
    l: "new_lab_result e code s = Inr (l, s1)" and
    rest: "selected_tests_loop e codes s1 = Inr (rest, s')" and
    ls: "ls = l # rest"
    by (auto simp: raise_bind_def split: sum.splits prod.splits)
  from Cons.IH[OF rest] new_lab_result_facts[OF l] show ?case by (simp add: ls)
qed

lemma selected_tests_loop_total:
  "set codes \<subseteq> set (map fst lab_tests) \<Longrightarrow> \<exists>ls s'. selected_tests_loop e codes s = Inr (ls, s')"
proof (induction codes arbitrary: s)
  case Nil
  then show ?case by simp
next
  case (Cons code codes)
  then obtain l s1 where l: "new_lab_result e code s = Inr (l, s1)"
    using new_lab_result_total[of code e s] by auto
  from Cons obtain rest s2 where "selected_tests_loop e codes s1 = Inr (rest, s2)" by fastforce
  with l show ?case by simp
qed

lemma np_random_poisson_cases:
  "np_random_poisson lam s = Inr (drawn, s1) \<Longrightarrow>
     0 \<le> lam \<and> drawn = (if lam = 0 then 0 else np_random s 0) \<and> py_random s1 = py_random s"
  by (auto simp: np_random_poisson_def split: if_splits)

lemma np_random_poisson_total:
  "0 \<le> lam \<Longrightarrow> \<exists>drawn s1. np_random_poisson lam s = Inr (drawn, s1)"
  by (simp add: np_random_poisson_def)

lemma random_sample_cases:
  "random_sample pop k s = Inr (xs, s') \<Longrightarrow>
     k \<le> length pop \<and> xs = draw_without_replacement (py_random s) k pop"
  by (auto simp: random_sample_def split: if_splits)

lemma random_sample_total:
  "k \<le> length pop \<Longrightarrow> \<exists>xs s'. random_sample pop k s = Inr (xs, s')"
  by (simp add: random_sample_def)

lemma encounter_lab_results_skip:
  "E_ENCOUNTER_TYPE e \<notin> set [''EMERGENCY'', ''INPATIENT'', ''OUTPATIENT''] \<Longrightarrow>
   encounter_lab_results lam e s = Inr ([], s)"
  by (simp add: encounter_lab_results_def)

lemma encounter_lab_results_eligible:
  assumes el: "E_ENCOUNTER_TYPE e \<in> set [''EMERGENCY'', ''INPATIENT'', ''OUTPATIENT'']"
    and r: "encounter_lab_results lam e s = Inr (labs, s')"
  shows "\<exists>drawn s1. np_random_poisson lam s = Inr (drawn, s1) \<and>
           map L_TEST_CODE labs =
             draw_without_replacement (py_random s) (min (max 1 (min drawn 10)) 8)
               (map fst lab_tests)"
proof -
  from el r obtain drawn s1 sel s2 where
    p: "np_random_poisson lam s = Inr (drawn, s1)" and
    sm: "random_sample (map fst lab_tests) (min (max 1 (min drawn 10)) (length lab_tests)) s1
          = Inr (sel, s2)" and
    lp: "selected_tests_loop e sel s2 = Inr (labs, s')"
    unfolding encounter_lab_results_def Let_def raise_bind_def
    by (auto split: sum.splits prod.splits if_splits)
  from np_random_poisson_cases[OF p] have py: "py_random s1 = py_random s" by simp
  from random_sample_cases[OF sm] have
    "sel = draw_without_replacement (py_random s) (min (max 1 (min drawn 10)) 8) (map fst lab_tests)"
    by (simp add: py lab_test_codes(2))
  moreover from selected_tests_loop_facts[OF lp] have "map L_TEST_CODE labs = sel" by simp
  ultimately show ?thesis using p by blast
qed

lemma encounter_lab_results_rows:
  assumes "encounter_lab_results lam e s = Inr (labs, s')"
  shows "\<forall>l \<in> set labs. L_ENCOUNTER_ID l = E_ENCOUNTER_ID e \<and> L_PATIENT_ID l = E_PATIENT_ID e \<and>
        E_ENCOUNTER_DATE e \<le> L_TEST_DATE l \<and> L_TEST_DATE l \<le> L_RESULT_DATE l"
proof (cases "E_ENCOUNTER_TYPE e \<in> set [''EMERGENCY'', ''INPATIENT'', ''OUTPATIENT'']")
  case False
  with assms encounter_lab_results_skip[of e lam s] show ?thesis by simp
next
  case True
  with assms obtain sel s2 where "selected_tests_loop e sel s2 = Inr (labs, s')"
    unfolding encounter_lab_results_def Let_def raise_bind_def
    by (auto split: sum.splits prod.splits if_splits)
  from selected_tests_loop_facts[OF this] show ?thesis by simp
qed

lemma encounter_lab_results_count:
  assumes el: "E_ENCOUNTER_TYPE e \<in> set [''EMERGENCY'', ''INPATIENT'', ''OUTPATIENT'']"
    and r: "encounter_lab_results lam e s = Inr (labs, s')"
    and p: "np_random_poisson lam s = Inr (drawn, s1)"
  shows "length labs = min (spec_clamp 1 10 drawn) 8"
proof -
  from encounter_lab_results_eligible[OF el r] p have
    "map L_TEST_CODE labs =
       draw_without_replacement (py_random s) (min (max 1 (min drawn 10)) 8) (map fst lab_tests)"
    by simp
  then have "length (map L_TEST_CODE labs) = min (min (max 1 (min drawn 10)) 8) 8"
    by (simp only: length_draw length_map lab_test_codes(2))
  then show ?thesis by (simp add: spec_clamp_def)
qed

lemma encounter_lab_results_codes:
  assumes r: "encounter_lab_results lam e s = Inr (labs, s')"
  shows "distinct (map L_TEST_CODE labs)" "set (map L_TEST_CODE labs) \<subseteq> set (map fst lab_tests)"
proof -
  have "distinct (map L_TEST_CODE labs) \<and> set (map L_TEST_CODE labs) \<subseteq> set (map fst lab_tests)"
  proof (cases "E_ENCOUNTER_TYPE e \<in> set [''EMERGENCY'', ''INPATIENT'', ''OUTPATIENT'']")
    case False
    with r encounter_lab_results_skip[of e lam s] show ?thesis by simp
  next
    case True
    from encounter_lab_results_eligible[OF True r] obtain drawn where
      c: "map L_TEST_CODE labs =
         draw_without_replacement (py_random s) (min (max 1 (min drawn 10)) 8) (map fst lab_tests)"
      by blast
    show ?thesis unfolding c
      by (intro conjI distinct_draw[OF lab_test_codes(3)] set_draw)
  qed
  then show "distinct (map L_TEST_CODE labs)"
    "set (map L_TEST_CODE labs) \<subseteq> set (map fst lab_tests)" by simp_all
qed

lemma encounter_lab_results_total:
  assumes "0 \<le> lam"
  shows "\<exists>labs s'. encounter_lab_results lam e s = Inr (labs, s')"
proof (cases "E_ENCOUNTER_TYPE e \<in> set [''EMERGENCY'', ''INPATIENT'', ''OUTPATIENT'']")
  case False
  then show ?thesis using encounter_lab_results_skip[of e lam s] by simp
next
  case True
  from np_random_poisson_total[OF assms] obtain drawn s1 where
    p: "np_random_poisson lam s = Inr (drawn, s1)" by blast
  have "min (max 1 (min drawn 10)) (length lab_tests) \<le> length (map fst lab_tests)" by simp
  from random_sample_total[OF this] obtain sel s2 where
    sm: "random_sample (map fst lab_tests) (min (max 1 (min drawn 10)) (length lab_tests)) s1
          = Inr (sel, s2)" by blast
  from random_sample_cases[OF sm] have "sel = draw_without_replacement (py_random s1)
      (min (max 1 (min drawn 10)) (length lab_tests)) (map fst lab_tests)" by (rule conjunct2)
  then have "set sel \<subseteq> set (map fst lab_tests)"
    by (simp only: set_draw)
  from selected_tests_loop_total[OF this] obtain labs s' where
    "selected_tests_loop e sel s2 = Inr (labs, s')" by blast
  then show ?thesis using True p sm
    by (simp add: encounter_lab_results_def Let_def)
qed

lemma lab_results_loop_parts:
  "lab_results_loop lam es s = Inr (ls, s') \<Longrightarrow>
   \<exists>parts. ls = concat parts \<and>
     list_all2 (\<lambda>e part. \<exists>t t'. encounter_lab_results lam e t = Inr (part, t')) es parts"
proof (induction es arbitrary: s ls)
  case Nil
  then show ?case by simp
next
  case (Cons e es)
  from Cons.prems obtain part s1 rest where
    p: "encounter_lab_results lam e s = Inr (part, s1)" and
    r: "lab_results_loop lam es s1 = Inr (rest, s')" and
    ls: "ls = part @ rest"
    by (auto simp: raise_bind_def split: sum.splits prod.splits)
  from Cons.IH[OF r] obtain parts where
    parts: "rest = concat parts"
      "list_all2 (\<lambda>e part. \<exists>t t'. encounter_lab_results lam e t = Inr (part, t')) es parts"
    by blast
  have "ls = concat (part # parts)" using ls parts(1) by simp
  moreover have "list_all2 (\<lambda>e part. \<exists>t t'. encounter_lab_results lam e t = Inr (part, t'))
      (e # es) (part # parts)" using p parts(2) by auto
  ultimately show ?case by blast
qed

lemma lab_results_loop_total:
  "0 \<le> lam \<Longrightarrow> \<exists>ls s'. lab_results_loop lam es s = Inr (ls, s')"
proof (induction es arbitrary: s)
  case Nil
  then show ?case by simp
next
  case (Cons e es)
  from encounter_lab_results_total[OF Cons.prems] obtain part s1 where
    p: "encounter_lab_results lam e s = Inr (part, s1)" by blast
  from Cons.IH[OF Cons.prems] obtain rest s2 where
    "lab_results_loop lam es s1 = Inr (rest, s2)" by blast
  with p show ?case by simp
qed

lemma lab_results_loop_rows:
  assumes "lab_results_loop lam es s = Inr (ls, s')"
  shows "\<forall>l \<in> set ls. \<exists>e \<in> set es.
      L_ENCOUNTER_ID l = E_ENCOUNTER_ID e \<and> L_PATIENT_ID l = E_PATIENT_ID e \<and>
      E_ENCOUNTER_TYPE e \<in> set [''EMERGENCY'', ''INPATIENT'', ''OUTPATIENT''] \<and>
      E_ENCOUNTER_DATE e \<le> L_TEST_DATE l \<and> L_TEST_DATE l \<le> L_RESULT_DATE l"
  using assms
proof (induction es arbitrary: s ls)
  case Nil
  then show ?case by simp
next
  case (Cons e es)
  from Cons.prems obtain part s1 rest where
    p: "encounter_lab_results lam e s = Inr (part, s1)" and
    r: "lab_results_loop lam es s1 = Inr (rest, s')" and
    ls: "ls = part @ rest"
    by (auto simp: raise_bind_def split: sum.splits prod.splits)
  have el: "part \<noteq> [] \<Longrightarrow> E_ENCOUNTER_TYPE e \<in> set [''EMERGENCY'', ''INPATIENT'', ''OUTPATIENT'']"
    using p encounter_lab_results_skip[of e lam s] by auto
  show ?case
  proof
    fix l assume "l \<in> set ls"
    then consider "l \<in> set part" | "l \<in> set rest" using ls by auto
    then show "\<exists>e \<in> set (e # es).
      L_ENCOUNTER_ID l = E_ENCOUNTER_ID e \<and> L_PATIENT_ID l = E_PATIENT_ID e \<and>
      E_ENCOUNTER_TYPE e \<in> set [''EMERGENCY'', ''INPATIENT'', ''OUTPATIENT''] \<and>
      E_ENCOUNTER_DATE e \<le> L_TEST_DATE l \<and> L_TEST_DATE l \<le> L_RESULT_DATE l"
    proof cases
      case 1
      then have "part \<noteq> []" by auto
      with el 1 encounter_lab_results_rows[OF p] show ?thesis by auto
    next
      case 2
      with Cons.IH[OF r] show ?thesis by auto
    qed
  qed
qed

lemma generate_lab_results_cases:
  "generate_lab_results g lam s = Inr (g', s') \<Longrightarrow>
   \<exists>es ls. encounters g = Some es \<and> lab_results_loop lam es s = Inr (ls, s') \<and>
           g' = g\<lparr>lab_results := Some ls\<rparr>"
  by (auto simp: generate_lab_results_def raise_bind_def split: option.splits sum.splits prod.splits)

text \<open>
  C8, amended: the lab results table is the concatenation, over the encounters in order,
  of what the loop body makes for each. For an encounter whose type is not EMERGENCY,
  INPATIENT or OUTPATIENT it makes nothing. For any other encounter it makes as many lab
  results as the Poisson draw clamped to \<open>[1, 10]\<close> and then capped at the size of the
  test catalog, which is 8; their test codes are pairwise distinct members of the
  catalog. With a non-negative average the loop body always returns.
\<close>

theorem lab_results_of_an_encounter:
  "(0 \<le> lam \<longrightarrow> (\<exists>labs s'. encounter_lab_results lam e s = Inr (labs, s'))) \<and>
   (\<forall>labs s'. encounter_lab_results lam e s = Inr (labs, s') \<longrightarrow>
      (E_ENCOUNTER_TYPE e \<notin> set [''EMERGENCY'', ''INPATIENT'', ''OUTPATIENT''] \<longrightarrow> labs = []) \<and>
      (E_ENCOUNTER_TYPE e \<in> set [''EMERGENCY'', ''INPATIENT'', ''OUTPATIENT''] \<longrightarrow>
         (\<exists>drawn s1. np_random_poisson lam s = Inr (drawn, s1) \<and>
            length labs = min (spec_clamp 1 10 drawn) (length lab_tests))) \<and>
      distinct (map L_TEST_CODE labs) \<and>
      set (map L_TEST_CODE labs) \<subseteq> set (map fst lab_tests)) \<and>
   (\<forall>g g' s'. generate_lab_results g lam s = Inr (g', s') \<longrightarrow>
      (\<exists>es ls parts. encounters g = Some es \<and> lab_results g' = Some ls \<and> ls = concat parts \<and>
         list_all2 (\<lambda>e part. \<exists>t t'. encounter_lab_results lam e t = Inr (part, t')) es parts))"
proof (intro conjI allI impI)
  assume "0 \<le> lam"
  then show "\<exists>labs s'. encounter_lab_results lam e s = Inr (labs, s')"
    by (rule encounter_lab_results_total)
next
  fix labs s'
  assume r: "encounter_lab_results lam e s = Inr (labs, s')"
  { assume "E_ENCOUNTER_TYPE e \<notin> set [''EMERGENCY'', ''INPATIENT'', ''OUTPATIENT'']"
    from encounter_lab_results_skip[OF this, of lam s] r show "labs = []" by simp }
  { assume el: "E_ENCOUNTER_TYPE e \<in> set [''EMERGENCY'', ''INPATIENT'', ''OUTPATIENT'']"
    from encounter_lab_results_eligible[OF el r] obtain drawn s1 where
      p: "np_random_poisson lam s = Inr (drawn, s1)" by blast
    from encounter_lab_results_count[OF el r p] p
    show "\<exists>drawn s1. np_random_poisson lam s = Inr (drawn, s1) \<and>
            length labs = min (spec_clamp 1 10 drawn) (length lab_tests)"
      by (auto simp: lab_test_codes(2)) }
  show "distinct (map L_TEST_CODE labs)" by (rule encounter_lab_results_codes(1)[OF r])
  show "set (map L_TEST_CODE labs) \<subseteq> set (map fst lab_tests)"
    by (rule encounter_lab_results_codes(2)[OF r])
next
  fix g g' s'
  assume "generate_lab_results g lam s = Inr (g', s')"
  from generate_lab_results_cases[OF this] obtain es ls where
    a: "encounters g = Some es" "lab_results_loop lam es s = Inr (ls, s')"
       "g' = g\<lparr>lab_results := Some ls\<rparr>" by blast
  from lab_results_loop_parts[OF a(2)] obtain parts where
    "ls = concat parts"
    "list_all2 (\<lambda>e part. \<exists>t t'. encounter_lab_results lam e t = Inr (part, t')) es parts"
    by blast
  moreover have "lab_results g' = Some ls" by (simp add: a(3))
  ultimately show "\<exists>es ls parts. encounters g = Some es \<and> lab_results g' = Some ls \<and>
      ls = concat parts \<and>
      list_all2 (\<lambda>e part. \<exists>t t'. encounter_lab_results lam e t = Inr (part, t')) es parts"
    using a(1) by blast
qed

theorem lab_results_of_an_encounter_witness:
  "\<exists>labs s'. encounter_lab_results 3
      \<lparr>E_ENCOUNTER_ID = ''ENC-0000000A'', E_PATIENT_ID = ''PAT-0000000A'',
       E_ENCOUNTER_TYPE = ''OUTPATIENT'', E_ENCOUNTER_DATE = 0, E_PROVIDER_ID = ''PROV-1000'',
       E_FACILITY_ID = ''FAC-100'', E_CHIEF_COMPLAINT = ''cough'', E_DIAGNOSIS_CODE = ''R51'',
       E_DIAGNOSIS_DESCRIPTION = ''Headache'', E_DISCHARGE_DATE = None, E_STATUS = ''ACTIVE'',
       E_CREATED_AT = 0, E_UPDATED_AT = 0, E_DELETED_AT = None\<rparr>
      \<lparr>py_random = (\<lambda>i. i), np_random = (\<lambda>i. 4), faker_random = (\<lambda>i. ''x''),
       os_urandom = (\<lambda>i. i), clock = (\<lambda>i. 0)\<rparr> = Inr (labs, s') \<and>
     length labs = 4 \<and> distinct (map L_TEST_CODE labs)"
proof -
  define e where "e = \<lparr>E_ENCOUNTER_ID = ''ENC-0000000A'', E_PATIENT_ID = ''PAT-0000000A'',
       E_ENCOUNTER_TYPE = ''OUTPATIENT'', E_ENCOUNTER_DATE = 0, E_PROVIDER_ID = ''PROV-1000'',
       E_FACILITY_ID = ''FAC-100'', E_CHIEF_COMPLAINT = ''cough'', E_DIAGNOSIS_CODE = ''R51'',
       E_DIAGNOSIS_DESCRIPTION = ''Headache'', E_DISCHARGE_DATE = None, E_STATUS = ''ACTIVE'',
       E_CREATED_AT = 0, E_UPDATED_AT = 0, E_DELETED_AT = None\<rparr>"
  define s where "s = \<lparr>py_random = (\<lambda>i. i), np_random = (\<lambda>i::nat. 4::nat),
       faker_random = (\<lambda>i. ''x''), os_urandom = (\<lambda>i. i), clock = (\<lambda>i. 0)\<rparr>"
  have el: "E_ENCOUNTER_TYPE e \<in> set [''EMERGENCY'', ''INPATIENT'', ''OUTPATIENT'']"
    by (simp add: e_def)
  have p: "\<And>drawn s1. np_random_poisson 3 s = Inr (drawn, s1) \<Longrightarrow> drawn = 4"
    by (auto simp: np_random_poisson_def s_def)
  have c: "min (spec_clamp 1 10 4) (length lab_tests) = 4"
    by (simp add: spec_clamp_def lab_test_codes(2))
  note t = lab_results_of_an_encounter[of 3 e s]
  from t obtain labs s' where r: "encounter_lab_results 3 e s = Inr (labs, s')" by auto
  from t r el obtain drawn s1 where
    "np_random_poisson 3 s = Inr (drawn, s1)"
    "length labs = min (spec_clamp 1 10 drawn) (length lab_tests)" by blast
  with p c have "length labs = 4" by auto
  moreover from t r have "distinct (map L_TEST_CODE labs)" by blast
  ultimately have "\<exists>labs s'. encounter_lab_results 3 e s = Inr (labs, s') \<and>
     length labs = 4 \<and> distinct (map L_TEST_CODE labs)" using r by blast
  then show ?thesis by (simp only: e_def s_def)
qed

text \<open>
  C8 as it is written takes the number of lab results to be the Poisson draw clamped
  to \<open>[1, 10]\<close>. When the draw is 9 the clamped draw is 9, but the catalog has eight
  tests and the sample is cut to its size: the encounter gets 8 lab results.
\<close>

theorem lab_count_counterexample:
  "fst (projr (np_random_poisson 3
      \<lparr>py_random = (\<lambda>i. i), np_random = (\<lambda>i. 9), faker_random = (\<lambda>i. ''x''),
       os_urandom = (\<lambda>i. i), clock = (\<lambda>i. 0)\<rparr>)) = 9 \<and>
   spec_clamp 1 10 9 = 9 \<and>
   \<not> isl (encounter_lab_results 3
      \<lparr>E_ENCOUNTER_ID = ''ENC-0000000A'', E_PATIENT_ID = ''PAT-0000000A'',
       E_ENCOUNTER_TYPE = ''OUTPATIENT'', E_ENCOUNTER_DATE = 0, E_PROVIDER_ID = ''PROV-1000'',
       E_FACILITY_ID = ''FAC-100'', E_CHIEF_COMPLAINT = ''cough'', E_DIAGNOSIS_CODE = ''R51'',
       E_DIAGNOSIS_DESCRIPTION = ''Headache'', E_DISCHARGE_DATE = None, E_STATUS = ''ACTIVE'',
       E_CREATED_AT = 0, E_UPDATED_AT = 0, E_DELETED_AT = None\<rparr>
      \<lparr>py_random = (\<lambda>i. i), np_random = (\<lambda>i. 9), faker_random = (\<lambda>i. ''x''),
       os_urandom = (\<lambda>i. i), clock = (\<lambda>i. 0)\<rparr>) \<and>
   length (fst (projr (encounter_lab_results 3
      \<lparr>E_ENCOUNTER_ID = ''ENC-0000000A'', E_PATIENT_ID = ''PAT-0000000A'',
       E_ENCOUNTER_TYPE = ''OUTPATIENT'', E_ENCOUNTER_DATE = 0, E_PROVIDER_ID = ''PROV-1000'',
       E_FACILITY_ID = ''FAC-100'', E_CHIEF_COMPLAINT = ''cough'', E_DIAGNOSIS_CODE = ''R51'',
       E_DIAGNOSIS_DESCRIPTION = ''Headache'', E_DISCHARGE_DATE = None, E_STATUS = ''ACTIVE'',
       E_CREATED_AT = 0, E_UPDATED_AT = 0, E_DELETED_AT = None\<rparr>
      \<lparr>py_random = (\<lambda>i. i), np_random = (\<lambda>i. 9), faker_random = (\<lambda>i. ''x''),
       os_urandom = (\<lambda>i. i), clock = (\<lambda>i. 0)\<rparr>))) = 8"
proof -
  define e where "e = \<lparr>E_ENCOUNTER_ID = ''ENC-0000000A'', E_PATIENT_ID = ''PAT-0000000A'',
       E_ENCOUNTER_TYPE = ''OUTPATIENT'', E_ENCOUNTER_DATE = 0, E_PROVIDER_ID = ''PROV-1000'',
       E_FACILITY_ID = ''FAC-100'', E_CHIEF_COMPLAINT = ''cough'', E_DIAGNOSIS_CODE = ''R51'',
       E_DIAGNOSIS_DESCRIPTION = ''Headache'', E_DISCHARGE_DATE = None, E_STATUS = ''ACTIVE'',
       E_CREATED_AT = 0, E_UPDATED_AT = 0, E_DELETED_AT = None\<rparr>"
  define s where "s = \<lparr>py_random = (\<lambda>i. i), np_random = (\<lambda>i::nat. 9::nat),
       faker_random = (\<lambda>i. ''x''), os_urandom = (\<lambda>i. i), clock = (\<lambda>i. 0)\<rparr>"
  have el: "E_ENCOUNTER_TYPE e \<in> set [''EMERGENCY'', ''INPATIENT'', ''OUTPATIENT'']"
    by (simp add: e_def)
  obtain s1 where p: "np_random_poisson 3 s = Inr (9, s1)"
    by (simp add: np_random_poisson_def s_def)
  obtain labs s' where r: "encounter_lab_results 3 e s = Inr (labs, s')"
    using encounter_lab_results_total[of 3 e s] by auto
  from encounter_lab_results_count[OF el r p] have "length labs = 8"
    by (simp add: spec_clamp_def)
  then have "fst (projr (np_random_poisson 3 s)) = 9 \<and> spec_clamp 1 10 9 = 9 \<and>
     \<not> isl (encounter_lab_results 3 e s) \<and>
     length (fst (projr (encounter_lab_results 3 e s))) = 8"
    by (simp add: p r spec_clamp_def)
  then show ?thesis unfolding e_def s_def .
qed


section \<open>Relational and temporal invariants of the tables (C5)\<close>

lemma random_choice_member:
  "seq \<noteq> [] \<Longrightarrow> random_choice seq s = (x, s') \<Longrightarrow> x \<in> set seq"
  by (auto simp: random_choice_def random_next_def)

lemma randint_fst_bounds:
  "a \<le> b \<Longrightarrow> a \<le> fst (random_randint a b s) \<and> fst (random_randint a b s) \<le> b"
  using randint_bounds[of a b s "fst (random_randint a b s)" "snd (random_randint a b s)"]
  by simp

lemma new_encounter_facts:
  assumes "new_encounter p s = Inr (e, s')"
  shows "E_PATIENT_ID e = P_PATIENT_ID p" "P_CREATED_AT p \<le> E_ENCOUNTER_DATE e"
    "\<forall>d. E_DISCHARGE_DATE e = Some d \<longrightarrow> E_ENCOUNTER_DATE e \<le> d"
proof -
  have b1: "\<And>t. 0 \<le> timedelta_days (fst (random_randint 0 (365 * 2) t))"
    using randint_fst_bounds[of 0 "365 * 2"] timedelta_nonneg(2) by simp
  have b2: "\<And>t. 0 \<le> timedelta_hours (fst (random_randint 2 240 t))"
  proof -
    fix t
    have "0 \<le> fst (random_randint 2 240 t)" using randint_fst_bounds[of 2 240 t] by simp
    then show "0 \<le> timedelta_hours (fst (random_randint 2 240 t))" by (rule timedelta_nonneg(1))
  qed
  from assms obtain description where
    e: "e = \<lparr>E_ENCOUNTER_ID = E_ENCOUNTER_ID e,
               E_PATIENT_ID = P_PATIENT_ID p,
               E_ENCOUNTER_TYPE = E_ENCOUNTER_TYPE e,
               E_ENCOUNTER_DATE = P_CREATED_AT p + timedelta_days
                  (fst (random_randint 0 (365 * 2) (snd (random_choices encounter_types encounter_weights s)))),
               E_PROVIDER_ID = E_PROVIDER_ID e,
               E_FACILITY_ID = E_FACILITY_ID e,
               E_CHIEF_COMPLAINT = E_CHIEF_COMPLAINT e,
               E_DIAGNOSIS_CODE = E_DIAGNOSIS_CODE e,
               E_DIAGNOSIS_DESCRIPTION = description,
               E_DISCHARGE_DATE = E_DISCHARGE_DATE e,
               E_STATUS = E_STATUS e,
               E_CREATED_AT = E_CREATED_AT e,
               E_UPDATED_AT = E_UPDATED_AT e,
               E_DELETED_AT = None\<rparr>" and
    dis: "E_DISCHARGE_DATE e = None \<or>
          E_DISCHARGE_DATE e = Some (E_ENCOUNTER_DATE e + timedelta_hours
            (fst (random_randint 2 240
               (snd (random_randint 0 (365 * 2)
                  (snd (random_choices encounter_types encounter_weights s)))))))"
    unfolding new_encounter_def Let_def case_prod_beta raise_bind_def
    by (auto split: sum.splits if_splits)
  show "E_PATIENT_ID e = P_PATIENT_ID p" by (subst e) simp
  have d: "E_ENCOUNTER_DATE e = P_CREATED_AT p + timedelta_days
       (fst (random_randint 0 (365 * 2) (snd (random_choices encounter_types encounter_weights s))))"
    by (subst e) simp
  show "P_CREATED_AT p \<le> E_ENCOUNTER_DATE e" unfolding d using b1 by simp
  show "\<forall>d. E_DISCHARGE_DATE e = Some d \<longrightarrow> E_ENCOUNTER_DATE e \<le> d"
    using dis b2 by auto
qed

lemma diagnosis_code_keys: "map fst diagnosis_codes \<noteq> []"
  by (simp add: diagnosis_codes_def)

lemma lookup_chosen_diagnosis:
  "\<exists>e s'. raise_bind
      (py_lookup diagnosis_codes (fst (random_choice (map fst diagnosis_codes) t)))
      (\<lambda>d. Inr (E d, S)) = Inr (e, s')"
proof -
  have "fst (random_choice (map fst diagnosis_codes) t) \<in> set (map fst diagnosis_codes)"
    using random_choice_member[OF diagnosis_code_keys, of t
        "fst (random_choice (map fst diagnosis_codes) t)"
        "snd (random_choice (map fst diagnosis_codes) t)"] by simp
  from py_lookup_key[OF this] obtain v where
    "py_lookup diagnosis_codes (fst (random_choice (map fst diagnosis_codes) t)) = Inr v" by blast
  then show ?thesis by simp
qed

lemma new_encounter_total: "\<exists>e s'. new_encounter p s = Inr (e, s')"
  unfolding new_encounter_def Let_def case_prod_beta by (rule lookup_chosen_diagnosis)

lemma patient_encounters_facts:
  "patient_encounters p n s = Inr (es, s') \<Longrightarrow>
     length es = n \<and>
     (\<forall>e \<in> set es. E_PATIENT_ID e = P_PATIENT_ID p \<and> P_CREATED_AT p \<le> E_ENCOUNTER_DATE e \<and>
        (\<forall>d. E_DISCHARGE_DATE e = Some d \<longrightarrow> E_ENCOUNTER_DATE e \<le> d))"
proof (induction n arbitrary: s es)
  case 0
  then show ?case by simp
next
  case (Suc n)
  from Suc.prems obtain e s1 rest where
    e: "new_encounter p s = Inr (e, s1)" and
    rest: "patient_encounters p n s1 = Inr (rest, s')" and
    es: "es = e # rest"
    by (auto simp: raise_bind_def split: sum.splits prod.splits)
  from Suc.IH[OF rest] new_encounter_facts[OF e] show ?case by (simp add: es)
qed

lemma patient_encounters_total: "\<exists>es s'. patient_encounters p n s = Inr (es, s')"
proof (induction n arbitrary: s)
  case 0
  then show ?case by simp
next
  case (Suc n)
  obtain e s1 where e: "new_encounter p s = Inr (e, s1)" using new_encounter_total by blast
  from Suc obtain rest s2 where "patient_encounters p n s1 = Inr (rest, s2)" by blast
  with e show ?case by simp
qed

lemma encounters_loop_facts:
  "encounters_loop lam ps s = Inr (es, s') \<Longrightarrow>
     length ps \<le> length es \<and>
     (\<forall>e \<in> set es. \<exists>p \<in> set ps.
        E_PATIENT_ID e = P_PATIENT_ID p \<and> P_CREATED_AT p \<le> E_ENCOUNTER_DATE e) \<and>
     (\<forall>e \<in> set es. \<forall>d. E_DISCHARGE_DATE e = Some d \<longrightarrow> E_ENCOUNTER_DATE e \<le> d)"
proof (induction ps arbitrary: s es)
  case Nil
  then show ?case by simp
next
  case (Cons p ps)
  from Cons.prems obtain drawn s1 made s2 more where
    m: "patient_encounters p (max 1 (min drawn 20)) s1 = Inr (made, s2)" and
    r: "encounters_loop lam ps s2 = Inr (more, s')" and
    es: "es = made @ more"
    by (auto simp: raise_bind_def Let_def split: sum.splits prod.splits)
  from patient_encounters_facts[OF m] have
    lm: "1 \<le> length made" and
    fm: "\<forall>e \<in> set made. E_PATIENT_ID e = P_PATIENT_ID p \<and> P_CREATED_AT p \<le> E_ENCOUNTER_DATE e \<and>
        (\<forall>d. E_DISCHARGE_DATE e = Some d \<longrightarrow> E_ENCOUNTER_DATE e \<le> d)" by simp_all
  from Cons.IH[OF r] have
    lr: "length ps \<le> length more" and
    fr: "\<forall>e \<in> set more. \<exists>p \<in> set ps.
        E_PATIENT_ID e = P_PATIENT_ID p \<and> P_CREATED_AT p \<le> E_ENCOUNTER_DATE e"
        "\<forall>e \<in> set more. \<forall>d. E_DISCHARGE_DATE e = Some d \<longrightarrow> E_ENCOUNTER_DATE e \<le> d"
    by simp_all
  have "length (p # ps) \<le> length es" using lm lr es by simp
  moreover have "\<forall>e \<in> set es. \<exists>q \<in> set (p # ps).
        E_PATIENT_ID e = P_PATIENT_ID q \<and> P_CREATED_AT q \<le> E_ENCOUNTER_DATE e"
    using fm fr(1) es by auto
  moreover have "\<forall>e \<in> set es. \<forall>d. E_DISCHARGE_DATE e = Some d \<longrightarrow> E_ENCOUNTER_DATE e \<le> d"
    using fm fr(2) es by auto
  ultimately show ?case by blast
qed

lemma encounters_loop_total:
  "0 \<le> lam \<Longrightarrow> \<exists>es s'. encounters_loop lam ps s = Inr (es, s')"
proof (induction ps arbitrary: s)
  case Nil
  then show ?case by simp
next
  case (Cons p ps)
  from np_random_poisson_total[OF Cons.prems] obtain drawn s1 where
    d: "np_random_poisson lam s = Inr (drawn, s1)" by blast
  obtain made s2 where m: "patient_encounters p (max 1 (min drawn 20)) s1 = Inr (made, s2)"
    using patient_encounters_total by blast
  from Cons.IH[OF Cons.prems] obtain more s3 where
    "encounters_loop lam ps s2 = Inr (more, s3)" by blast
  with d m show ?case by (simp add: Let_def)
qed

lemma length_patients_loop: "length (fst (patients_loop n s)) = n"
proof (induction n arbitrary: s)
  case 0
  then show ?case by simp
next
  case (Suc n)
  have "fst (patients_loop (Suc n) s) =
      fst (new_patient s) # fst (patients_loop n (snd (new_patient s)))"
    by (simp add: Let_def case_prod_beta)
  then show ?case using Suc by simp
qed

lemma generate_patients_cases:
  "generate_patients g s = (g', s') \<Longrightarrow>
   \<exists>ps. g' = g\<lparr>patients := Some ps\<rparr> \<and> length ps = nat (num_patients g)"
  using length_patients_loop[of "nat (num_patients g)" s]
  by (auto simp: generate_patients_def Let_def split: prod.splits)

lemma generate_encounters_cases:
  "generate_encounters g lam s = Inr (g', s') \<Longrightarrow>
   \<exists>ps es. patients g = Some ps \<and> encounters_loop lam ps s = Inr (es, s') \<and>
           g' = g\<lparr>encounters := Some es\<rparr>"
  by (auto simp: generate_encounters_def raise_bind_def split: option.splits sum.splits prod.splits)

lemma generate_encounters_total:
  "0 \<le> lam \<Longrightarrow> patients g = Some ps \<Longrightarrow> \<exists>g' s'. generate_encounters g lam s = Inr (g', s')"
  using encounters_loop_total[of lam ps s] by (auto simp: generate_encounters_def)

lemma generate_lab_results_total:
  "0 \<le> lam \<Longrightarrow> encounters g = Some es \<Longrightarrow> \<exists>g' s'. generate_lab_results g lam s = Inr (g', s')"
  using lab_results_loop_total[of lam es s] by (auto simp: generate_lab_results_def)

lemma pipeline_tables:
  assumes "generate_patients g0 s0 = (g1, s1)"
    and "generate_encounters g1 lam1 s1 = Inr (g2, s2)"
    and "generate_lab_results g2 lam2 s2 = Inr (g3, s3)"
  shows "\<exists>ps es ls. patients g3 = Some ps \<and> encounters g3 = Some es \<and> lab_results g3 = Some ls \<and>
     length ps = nat (num_patients g0) \<and>
     encounters_loop lam1 ps s1 = Inr (es, s2) \<and> lab_results_loop lam2 es s2 = Inr (ls, s3)"
proof -
  from generate_patients_cases[OF assms(1)] obtain ps where
    p: "g1 = g0\<lparr>patients := Some ps\<rparr>" "length ps = nat (num_patients g0)" by blast
  from generate_encounters_cases[OF assms(2)] p(1) obtain es where
    e: "encounters_loop lam1 ps s1 = Inr (es, s2)" "g2 = g1\<lparr>encounters := Some es\<rparr>" by auto
  from generate_lab_results_cases[OF assms(3)] e(2) obtain ls where
    l: "lab_results_loop lam2 es s2 = Inr (ls, s3)" "g3 = g2\<lparr>lab_results := Some ls\<rparr>" by auto
  have "patients g3 = Some ps" "encounters g3 = Some es" "lab_results g3 = Some ls"
    by (simp_all add: l(2) e(2) p(1))
  with p(2) e(1) l(1) show ?thesis by blast
qed

lemma pipeline_total:
  assumes "0 \<le> lam1" "0 \<le> lam2"
  shows "\<exists>g1 s1 g2 s2 g3 s3. generate_patients g0 s0 = (g1, s1) \<and>
     generate_encounters g1 lam1 s1 = Inr (g2, s2) \<and>
     generate_lab_results g2 lam2 s2 = Inr (g3, s3)"
proof -
  obtain g1 s1 where a: "generate_patients g0 s0 = (g1, s1)" by (cases "generate_patients g0 s0")
  from generate_patients_cases[OF a] obtain ps where "patients g1 = Some ps" by auto
  from generate_encounters_total[OF assms(1) this] obtain g2 s2 where
    b: "generate_encounters g1 lam1 s1 = Inr (g2, s2)" by blast
  from generate_encounters_cases[OF b] obtain es where "encounters g2 = Some es" by auto
  from generate_lab_results_total[OF assms(2) this] obtain g3 s3 where
    "generate_lab_results g2 lam2 s2 = Inr (g3, s3)" by blast
  with a b show ?thesis by blast
qed

text \<open>
  C5: whenever the three passes, run in order with any patient count and any averages,
  return, the tables the generator then holds satisfy the relational and temporal
  invariants: each encounter carries the \<open>PATIENT_ID\<close> of a patient of the table that
  was created no later than the encounter; each lab result carries the \<open>ENCOUNTER_ID\<close>
  and \<open>PATIENT_ID\<close> of an encounter of the table dated no later than the test; a
  discharge date, where there is one, is not before the encounter date, and a result
  date not before the test date. With non-negative averages the three passes do return.
\<close>

theorem generated_tables_satisfy_invariants:
  "(\<forall>g1 s1 g2 s2 g3 s3.
      generate_patients g0 s0 = (g1, s1) \<and>
      generate_encounters g1 lam1 s1 = Inr (g2, s2) \<and>
      generate_lab_results g2 lam2 s2 = Inr (g3, s3) \<longrightarrow> spec_invariants g3) \<and>
   (0 \<le> lam1 \<and> 0 \<le> lam2 \<longrightarrow>
      (\<exists>g1 s1 g2 s2 g3 s3.
         generate_patients g0 s0 = (g1, s1) \<and>
         generate_encounters g1 lam1 s1 = Inr (g2, s2) \<and>
         generate_lab_results g2 lam2 s2 = Inr (g3, s3)))"
proof (intro conjI allI impI)
  fix g1 s1 g2 s2 g3 s3
  assume a: "generate_patients g0 s0 = (g1, s1) \<and>
      generate_encounters g1 lam1 s1 = Inr (g2, s2) \<and>
      generate_lab_results g2 lam2 s2 = Inr (g3, s3)"
  from pipeline_tables[of g0 s0 g1 s1 lam1 g2 s2 lam2 g3 s3] a obtain ps es ls where
    t: "patients g3 = Some ps" "encounters g3 = Some es" "lab_results g3 = Some ls" and
    e: "encounters_loop lam1 ps s1 = Inr (es, s2)" and
    l: "lab_results_loop lam2 es s2 = Inr (ls, s3)" by blast
  note ef = encounters_loop_facts[OF e]
  note lf = lab_results_loop_rows[OF l]
  have "\<forall>l \<in> set ls. \<exists>e \<in> set es.
           L_ENCOUNTER_ID l = E_ENCOUNTER_ID e \<and> L_PATIENT_ID l = E_PATIENT_ID e \<and>
           E_ENCOUNTER_DATE e \<le> L_TEST_DATE l" using lf by blast
  moreover have "\<forall>l \<in> set ls. L_TEST_DATE l \<le> L_RESULT_DATE l" using lf by blast
  moreover have "\<forall>e \<in> set es. case E_DISCHARGE_DATE e of
      None \<Rightarrow> True | Some d \<Rightarrow> E_ENCOUNTER_DATE e \<le> d"
    using ef by (auto split: option.splits)
  ultimately show "spec_invariants g3"
    unfolding spec_invariants_def using t ef by simp
next
  assume "0 \<le> lam1 \<and> 0 \<le> lam2"
  then show "\<exists>g1 s1 g2 s2 g3 s3.
         generate_patients g0 s0 = (g1, s1) \<and>
         generate_encounters g1 lam1 s1 = Inr (g2, s2) \<and>
         generate_lab_results g2 lam2 s2 = Inr (g3, s3)"
    using pipeline_total by blast
qed

theorem generated_tables_satisfy_invariants_witness:
  "\<exists>g1 s1 g2 s2 g3 s3 ps es.
     generate_patients (new_generator 2)
       \<lparr>py_random = (\<lambda>i. i), np_random = (\<lambda>i. 2), faker_random = (\<lambda>i. ''x''),
        os_urandom = (\<lambda>i. i), clock = (\<lambda>i. 0)\<rparr> = (g1, s1) \<and>
     generate_encounters g1 5 s1 = Inr (g2, s2) \<and>
     generate_lab_results g2 3 s2 = Inr (g3, s3) \<and>
     patients g3 = Some ps \<and> encounters g3 = Some es \<and>
     length ps = 2 \<and> 2 \<le> length es \<and>
     E_PATIENT_ID (hd es) \<in> P_PATIENT_ID ` set ps"
proof -
  define s0 where "s0 = \<lparr>py_random = (\<lambda>i. i), np_random = (\<lambda>i::nat. 2::nat),
      faker_random = (\<lambda>i. ''x''), os_urandom = (\<lambda>i. i), clock = (\<lambda>i. 0)\<rparr>"
  note t = generated_tables_satisfy_invariants[of "new_generator 2" s0 5 3]
  from t obtain g1 s1 g2 s2 g3 s3 where
    r: "generate_patients (new_generator 2) s0 = (g1, s1)"
       "generate_encounters g1 5 s1 = Inr (g2, s2)"
       "generate_lab_results g2 3 s2 = Inr (g3, s3)" by auto
  from t r have inv: "spec_invariants g3" by blast
  from pipeline_tables[OF r] obtain ps es where
    p: "patients g3 = Some ps" "encounters g3 = Some es" "length ps = 2"
       "encounters_loop 5 ps s1 = Inr (es, s2)" by (auto simp: new_generator_def)
  from encounters_loop_facts[OF p(4)] p(3) have le: "2 \<le> length es" by simp
  then have "hd es \<in> set es" by (cases es) auto
  with inv p(1,2) have "E_PATIENT_ID (hd es) \<in> P_PATIENT_ID ` set ps"
    unfolding spec_invariants_def by (auto split: option.splits)
  with r p(1,2,3) le have "\<exists>g1 s1 g2 s2 g3 s3 ps es.
     generate_patients (new_generator 2) s0 = (g1, s1) \<and>
     generate_encounters g1 5 s1 = Inr (g2, s2) \<and>
     generate_lab_results g2 3 s2 = Inr (g3, s3) \<and>
     patients g3 = Some ps \<and> encounters g3 = Some es \<and>
     length ps = 2 \<and> 2 \<le> length es \<and>
     E_PATIENT_ID (hd es) \<in> P_PATIENT_ID ` set ps" by blast
  then show ?thesis unfolding s0_def .
qed

section \<open>Two runs with the same seed (C1)\<close>

lemma hex8_values: "hex8 0 = ''00000000''" "hex8 (Suc 0) = ''00000001''"
  by (simp_all add: hex8_def hex_digit_def)

lemma first_patient_id:
  "map P_PATIENT_ID (fst (patients_loop (Suc 0) s)) =
     [''PAT-'' @ hex8 ((os_urandom s 0 mod 2 ^ 128) div 2 ^ 96)]"
  by (simp add: Let_def case_prod_beta new_patient_def uuid4_hex8_upper_def)

lemma first_patient_created_at:
  "map P_CREATED_AT (fst (patients_loop (Suc 0) s)) =
     [clock s 0 - timedelta_days (365 + int (py_random s (Suc 0) mod 3286))]"
  by (simp add: Let_def case_prod_beta new_patient_def uuid4_hex8_upper_def fake_next_def
      random_choice_def random_next_def datetime_now_def random_randint_def)

text \<open>
  C1 does not hold of the code. The three seeded generators are the same in the runs
  below, which generate one patient each. Where only the operating system's entropy
  differs, the two runs give different \<open>PATIENT_ID\<close>s; where only the clock differs,
  they give different \<open>CREATED_AT\<close> values. The seed reaches neither
  \<open>uuid.uuid4()\<close> nor \<open>datetime.now()\<close>.
\<close>

theorem same_seed_different_tables:
  "map P_PATIENT_ID (the (patients (fst (generate_patients (new_generator 1)
      \<lparr>py_random = (\<lambda>i. i), np_random = (\<lambda>i. 2), faker_random = (\<lambda>i. ''x''),
       os_urandom = (\<lambda>i. 0), clock = (\<lambda>i. 0)\<rparr>)))) = [''PAT-00000000''] \<and>
   map P_PATIENT_ID (the (patients (fst (generate_patients (new_generator 1)
      \<lparr>py_random = (\<lambda>i. i), np_random = (\<lambda>i. 2), faker_random = (\<lambda>i. ''x''),
       os_urandom = (\<lambda>i. 2 ^ 96), clock = (\<lambda>i. 0)\<rparr>)))) = [''PAT-00000001''] \<and>
   map P_CREATED_AT (the (patients (fst (generate_patients (new_generator 1)
      \<lparr>py_random = (\<lambda>i. i), np_random = (\<lambda>i. 2), faker_random = (\<lambda>i. ''x''),
       os_urandom = (\<lambda>i. 0), clock = (\<lambda>i. 0)\<rparr>)))) = [- 31622400000000] \<and>
   map P_CREATED_AT (the (patients (fst (generate_patients (new_generator 1)
      \<lparr>py_random = (\<lambda>i. i), np_random = (\<lambda>i. 2), faker_random = (\<lambda>i. ''x''),
       os_urandom = (\<lambda>i. 0), clock = (\<lambda>i. 1000000)\<rparr>)))) = [- 31622399000000]"
proof -
  have g: "\<And>s. the (patients (fst (generate_patients (new_generator 1) s))) =
      fst (patients_loop (Suc 0) s)"
    by (simp add: generate_patients_def new_generator_def case_prod_beta)
  show ?thesis
    unfolding g first_patient_id first_patient_created_at
    by (simp add: hex8_values timedelta_days_def)
qed


end
